theory Spec2Isabelle
  imports Complex_Main
begin

section \<open>Market pricing engine of EbayAutolister\<close>

text \<open>
  A shallow embedding of \<^verbatim>\<open>ebay_pricing/__init__.py\<close>, \<^verbatim>\<open>config.py\<close>,
  \<^verbatim>\<open>ebay_pricing/pricing_engine.py\<close>, \<^verbatim>\<open>ebay_pricing/market_research.py\<close>,
  \<^verbatim>\<open>ebay_pricing/browse_api.py\<close> and \<^verbatim>\<open>ebay_pricing/cache_manager.py\<close>.

  Conventions of the embedding:
  \<^item> a Python \<^verbatim>\<open>float\<close> is an exact \<^typ>\<open>real\<close>: rounding, overflow, infinities and
    NaN of IEEE arithmetic are not modelled, so every numeric statement below is one of
    exact decimal arithmetic;
  \<^item> a Python \<^verbatim>\<open>int\<close> is an \<^typ>\<open>int\<close>; \<^verbatim>\<open>Optional[T]\<close> is \<^typ>\<open>'a option\<close>;
  \<^item> a \<^verbatim>\<open>str\<close> is a \<^typ>\<open>string\<close> of ASCII characters;
  \<^item> every value has the type its annotation gives: Python does not check annotations,
    and objects or documents that hold a value of another type are outside the model;
  \<^item> a \<^verbatim>\<open>datetime\<close> is the number of microseconds since the epoch, and
    \<^verbatim>\<open>datetime.now()\<close> is a parameter of the function that reads the clock (one
    parameter per reading);
  \<^item> an exception is a value of type \<open>error\<close>; a function that may raise returns
    \<open>error + 'a\<close>, and a \<^verbatim>\<open>try/except Exception\<close> is a case distinction on it;
  \<^item> the SQLite table is a map from its primary key to the rest of the row; failures of
    the database itself are not modelled;
  \<^item> logging is not modelled;
  \<^item> a method \<^verbatim>\<open>_name\<close> of the source is called \<open>name\<close> here, and a local
    variable whose name is also a field name carries a prime.
\<close>

subsection \<open>Exceptions\<close>

datatype error =
    StatisticsError
  | JSONDecodeError
  | KeyError string
  | ValueError
  | AttributeError
  | CollaboratorError string

definition bind_err :: "error + 'a \<Rightarrow> ('a \<Rightarrow> error + 'b) \<Rightarrow> error + 'b" where
  "bind_err m f = (case m of Inl e \<Rightarrow> Inl e | Inr x \<Rightarrow> f x)"

subsection \<open>String methods\<close>

text \<open>
  \<^verbatim>\<open>str.lower\<close>, \<^verbatim>\<open>str.upper\<close>, \<^verbatim>\<open>str.split()\<close> (on runs of whitespace, without
  empty words), \<^verbatim>\<open>sep.join\<close>, \<^verbatim>\<open>str.strip()\<close> and the substring test
  \<^verbatim>\<open>kw in s\<close>, on ASCII.
\<close>

definition lower_char :: "char \<Rightarrow> char" where
  "lower_char c =
     (case map_of (zip ''ABCDEFGHIJKLMNOPQRSTUVWXYZ'' ''abcdefghijklmnopqrstuvwxyz'') c of
        Some d \<Rightarrow> d
      | None \<Rightarrow> c)"

definition upper_char :: "char \<Rightarrow> char" where
  "upper_char c =
     (case map_of (zip ''abcdefghijklmnopqrstuvwxyz'' ''ABCDEFGHIJKLMNOPQRSTUVWXYZ'') c of
        Some d \<Rightarrow> d
      | None \<Rightarrow> c)"

definition lower :: "string \<Rightarrow> string" where
  "lower s = map lower_char s"

definition upper :: "string \<Rightarrow> string" where
  "upper s = map upper_char s"

definition isspace :: "char \<Rightarrow> bool" where
  "isspace c \<longleftrightarrow>
     c \<in> set [CHR 0x20, CHR 0x09, CHR 0x0A, CHR 0x0B, CHR 0x0C, CHR 0x0D,
              CHR 0x1C, CHR 0x1D, CHR 0x1E, CHR 0x1F]"

fun split_words :: "string \<Rightarrow> string \<Rightarrow> string list" where
  "split_words w [] = (if w = [] then [] else [rev w])"
| "split_words w (c # cs) =
     (if isspace c then (if w = [] then split_words [] cs else rev w # split_words [] cs)
      else split_words (c # w) cs)"

definition split :: "string \<Rightarrow> string list" where
  "split s = split_words [] s"

fun join :: "string \<Rightarrow> string list \<Rightarrow> string" where
  "join sep [] = []"
| "join sep [w] = w"
| "join sep (w # ws) = w @ sep @ join sep ws"

definition strip :: "string \<Rightarrow> string" where
  "strip s = rev (dropWhile isspace (rev (dropWhile isspace s)))"

fun contains :: "string \<Rightarrow> string \<Rightarrow> bool" where
  "contains [] kw = (kw = [])"
| "contains (c # cs) kw = (take (length kw) (c # cs) = kw \<or> contains cs kw)"

subsection \<open>Timestamps and their text\<close>

type_synonym datetime = int

text \<open>
  \<^verbatim>\<open>datetime.isoformat\<close> and \<^verbatim>\<open>datetime.fromisoformat\<close> belong to the standard
  library, and nothing in the program looks inside the text they exchange. The text of
  a timestamp is modelled as its microsecond count in decimal digits, with a minus sign
  for a negative count; \<open>fromisoformat\<close> raises \<open>ValueError\<close> on any other text.
\<close>

definition digit_char :: "nat \<Rightarrow> char" where
  "digit_char n = ''0123456789'' ! n"

definition digit_val :: "char \<Rightarrow> nat option" where
  "digit_val c = map_of (zip ''0123456789'' [0, 1, 2, 3, 4, 5, 6, 7, 8, 9]) c"

fun dec_nat :: "nat \<Rightarrow> string" where
  "dec_nat n = (if n < 10 then [digit_char n]
                else dec_nat (n div 10) @ [digit_char (n mod 10)])"

fun undec :: "nat \<Rightarrow> string \<Rightarrow> nat option" where
  "undec acc [] = Some acc"
| "undec acc (c # cs) =
     (case digit_val c of None \<Rightarrow> None | Some d \<Rightarrow> undec (10 * acc + d) cs)"

definition isoformat :: "datetime \<Rightarrow> string" where
  "isoformat d = (if d < 0 then CHR ''-'' # dec_nat (nat (- d)) else dec_nat (nat d))"

definition fromisoformat :: "string \<Rightarrow> error + datetime" where
  "fromisoformat s =
     (case s of
        [] \<Rightarrow> Inl ValueError
      | c # cs \<Rightarrow>
          if c = CHR ''-'' then
            (case cs of
               [] \<Rightarrow> Inl ValueError
             | _ # _ \<Rightarrow> (case undec 0 cs of None \<Rightarrow> Inl ValueError | Some n \<Rightarrow> Inr (- int n)))
          else (case undec 0 s of None \<Rightarrow> Inl ValueError | Some n \<Rightarrow> Inr (int n)))"

text \<open>\<^verbatim>\<open>timedelta(hours=h)\<close> and \<^verbatim>\<open>timedelta.total_seconds()\<close>.\<close>

definition timedelta_hours :: "int \<Rightarrow> int" where
  "timedelta_hours h = h * 3600 * 1000000"

definition total_seconds :: "int \<Rightarrow> real" where
  "total_seconds td = real_of_int td / 1000000"

subsection \<open>Data model (\<^verbatim>\<open>ebay_pricing/__init__.py\<close>)\<close>

text \<open>
  Several dictionaries, the cached documents and the cache table share key names with
  the dataclasses. They are declared first, so that a plain field name is the dataclass
  field, and a key is read with its record's name: \<open>sold_stats.sold_count d\<close> is
  \<^verbatim>\<open>d['sold_count']\<close>.

  \<open>upc_data\<close> is the dictionary of \<^verbatim>\<open>upc_lookup.lookup_product\<close> (the keys the
  pricing engine reads; every provider sets all three), \<open>sold_stats\<close> the one of
  \<^verbatim>\<open>calculate_sold_stats\<close>, \<open>active_stats\<close> the one of
  \<^verbatim>\<open>analyze_active_competition\<close>, and \<open>market_cache_row\<close> a row of the table
  \<^verbatim>\<open>market_cache\<close> without its key.
\<close>

record upc_data =
  title :: string
  brand :: string
  msrp :: "real option"

record sold_stats =
  avg_sold_price :: real
  median_sold_price :: real
  price_range_low :: real
  price_range_high :: real
  sold_count :: int

record active_stats =
  avg_active_price :: real
  median_active_price :: real
  active_listing_count :: int
  price_range_low :: real
  price_range_high :: real

text \<open>
  The values of the annotated types are the only ones here: as a \<open>MarketData\<close> holds a
  string for its brand and an int for its count, so does a cached document. A key of a
  document is absent (\<open>None\<close>) or holds a value of the type that the dataclass gives
  the field it is read into; the JSON \<^verbatim>\<open>null\<close> of \<^verbatim>\<open>url\<close> reads like an absent key.
  \<open>listing_doc\<close> is an entry of \<^verbatim>\<open>sold_listings\<close>, \<open>market_doc\<close> the dictionary
  \<^verbatim>\<open>data_dict\<close>.

  \<^verbatim>\<open>json.dumps\<close> and \<^verbatim>\<open>json.loads\<close> belong to the standard library: a text is
  modelled by the value it denotes, a dictionary or some other JSON value, and a text
  that \<^verbatim>\<open>json.loads\<close> rejects by \<open>Garbled\<close>.
\<close>

record listing_doc =
  title :: "string option"
  price :: "real option"
  sold_date :: "string option"
  condition :: "string option"
  source :: "string option"
  url :: "string option"

record market_doc =
  brand :: "string option"
  model :: "string option"
  condition :: "string option"
  avg_sold_price :: "real option"
  median_sold_price :: "real option"
  price_range_low :: "real option"
  price_range_high :: "real option"
  sold_count :: "int option"
  sold_listings :: "listing_doc list option"
  active_listing_count :: "int option"
  avg_active_price :: "real option"
  median_active_price :: "real option"
  confidence :: "real option"
  sources :: "string list option"

datatype json = JDict market_doc | JOther

datatype jtext = Text json | Garbled

definition json_dumps :: "json \<Rightarrow> jtext" where
  "json_dumps j = Text j"

fun json_loads :: "jtext \<Rightarrow> error + json" where
  "json_loads (Text j) = Inr j"
| "json_loads Garbled = Inl JSONDecodeError"

text \<open>
  \<^verbatim>\<open>d[k]\<close>, which raises \<^verbatim>\<open>KeyError\<close> on an absent key, and \<^verbatim>\<open>d.get(k, default)\<close>,
  for the value \<open>v\<close> under the key \<open>k\<close> of a dictionary \<open>d\<close>.
\<close>

definition subscript :: "string \<Rightarrow> 'a option \<Rightarrow> error + 'a" where
  "subscript k v = (case v of None \<Rightarrow> Inl (KeyError k) | Some x \<Rightarrow> Inr x)"

definition get_or :: "'a \<Rightarrow> 'a option \<Rightarrow> 'a" where
  "get_or dflt v = (case v of None \<Rightarrow> dflt | Some x \<Rightarrow> x)"

record market_cache_row =
  brand :: string
  model :: string
  condition :: string
  data_json :: jtext
  created_at :: string
  expires_at :: string

type_synonym market_cache = "string \<rightharpoonup> market_cache_row"

record SoldListing =
  title :: string
  price :: real
  sold_date :: datetime
  condition :: string
  source :: string
  url :: "string option"

record MarketData =
  brand :: string
  model :: string
  condition :: string
  avg_sold_price :: real
  median_sold_price :: real
  price_range_low :: real
  price_range_high :: real
  sold_count :: int
  sold_listings :: "SoldListing list"
  active_listing_count :: int
  avg_active_price :: real
  median_active_price :: real
  confidence :: real
  data_age_hours :: real
  sources :: "string list"
  created_at :: datetime

text \<open>
  The constructor call \<^verbatim>\<open>MarketData(brand=..., model=..., condition=..., sources=[])\<close>
  of \<^verbatim>\<open>fetch_market_data\<close>, with every other field at its default;
  \<^verbatim>\<open>created_at\<close> defaults to the clock reading at construction.
\<close>

definition MarketData_init :: "datetime \<Rightarrow> string \<Rightarrow> string \<Rightarrow> string \<Rightarrow> MarketData" where
  "MarketData_init now b m c =
     \<lparr>brand = b, model = m, condition = c,
      avg_sold_price = 0.0, median_sold_price = 0.0,
      price_range_low = 0.0, price_range_high = 0.0,
      sold_count = 0, sold_listings = [],
      active_listing_count = 0, avg_active_price = 0.0, median_active_price = 0.0,
      confidence = 0.0, data_age_hours = 0.0, sources = [], created_at = now\<rparr>"

text \<open>
  An f-string is kept as the list of its pieces, with the numbers not yet rendered:
  \<open>Fix2 x\<close> is \<^verbatim>\<open>{x:.2f}\<close>, \<open>Flt x\<close> is \<^verbatim>\<open>{x}\<close> for a float and \<open>Num n\<close>
  is \<^verbatim>\<open>{n}\<close> for an int.
\<close>

datatype frag = Lit string | Fix2 real | Flt real | Num int

type_synonym fstring = "frag list"

record PricingRecommendation =
  buy_it_now_price :: real
  min_offer_price :: "real option"
  auto_accept_offer :: "real option"
  auto_decline_offer :: "real option"
  auction_start_price :: "real option"
  auction_reserve_price :: "real option"
  confidence :: real
  reasoning :: fstring
  market_data :: "MarketData option"

subsection \<open>Configuration (\<^verbatim>\<open>config.py\<close>)\<close>

text \<open>\<^verbatim>\<open>d.get(k, default)\<close> on a dictionary written as an association list.\<close>

definition dict_get :: "('k \<times> 'v) list \<Rightarrow> 'k \<Rightarrow> 'v \<Rightarrow> 'v" where
  "dict_get d k dflt = (case map_of d k of None \<Rightarrow> dflt | Some v \<Rightarrow> v)"

definition CONDITION_MAPPINGS :: "(string \<times> string) list" where
  "CONDITION_MAPPINGS =
     [(''like new'', ''LIKE_NEW''),
      (''very good'', ''USED_VERY_GOOD''),
      (''good'', ''USED_GOOD''),
      (''acceptable'', ''USED_ACCEPTABLE''),
      (''salvage'', ''FOR_PARTS_OR_NOT_WORKING''),
      (''likenew'', ''LIKE_NEW''),
      (''like-new'', ''LIKE_NEW''),
      (''verygood'', ''USED_VERY_GOOD''),
      (''very-good'', ''USED_VERY_GOOD''),
      (''vgood'', ''USED_VERY_GOOD''),
      (''v good'', ''USED_VERY_GOOD''),
      (''vg'', ''USED_VERY_GOOD''),
      (''new'', ''NEW''),
      (''brand new'', ''NEW''),
      (''sealed'', ''NEW''),
      (''mint'', ''NEW''),
      (''unopened'', ''NEW''),
      (''open box'', ''NEW_OTHER''),
      (''new open box'', ''NEW_OTHER''),
      (''new other'', ''NEW_OTHER''),
      (''new without tags'', ''NEW_OTHER''),
      (''graded'', ''LIKE_NEW''),
      (''new with defects'', ''NEW_WITH_DEFECTS''),
      (''new damaged'', ''NEW_WITH_DEFECTS''),
      (''new imperfect'', ''NEW_WITH_DEFECTS''),
      (''certified refurbished'', ''CERTIFIED_REFURBISHED''),
      (''manufacturer refurbished'', ''CERTIFIED_REFURBISHED''),
      (''excellent refurbished'', ''EXCELLENT_REFURBISHED''),
      (''very good refurbished'', ''VERY_GOOD_REFURBISHED''),
      (''good refurbished'', ''GOOD_REFURBISHED''),
      (''seller refurbished'', ''SELLER_REFURBISHED''),
      (''refurbished'', ''SELLER_REFURBISHED''),
      (''renewed'', ''SELLER_REFURBISHED''),
      (''restored'', ''SELLER_REFURBISHED''),
      (''used excellent'', ''USED_EXCELLENT''),
      (''used like new'', ''LIKE_NEW''),
      (''excellent'', ''USED_EXCELLENT''),
      (''near mint'', ''LIKE_NEW''),
      (''used very good'', ''USED_VERY_GOOD''),
      (''light wear'', ''USED_VERY_GOOD''),
      (''used good'', ''USED_GOOD''),
      (''moderate wear'', ''USED_GOOD''),
      (''normal wear'', ''USED_GOOD''),
      (''used acceptable'', ''USED_ACCEPTABLE''),
      (''fair'', ''USED_ACCEPTABLE''),
      (''heavy wear'', ''USED_ACCEPTABLE''),
      (''well used'', ''USED_ACCEPTABLE''),
      (''pre owned excellent'', ''PRE_OWNED_EXCELLENT''),
      (''pre owned fair'', ''PRE_OWNED_FAIR''),
      (''pre-owned excellent'', ''PRE_OWNED_EXCELLENT''),
      (''pre-owned fair'', ''PRE_OWNED_FAIR''),
      (''for parts'', ''FOR_PARTS_OR_NOT_WORKING''),
      (''not working'', ''FOR_PARTS_OR_NOT_WORKING''),
      (''broken'', ''FOR_PARTS_OR_NOT_WORKING''),
      (''parts only'', ''FOR_PARTS_OR_NOT_WORKING''),
      (''repair'', ''FOR_PARTS_OR_NOT_WORKING''),
      (''damaged'', ''FOR_PARTS_OR_NOT_WORKING''),
      (''scrap'', ''FOR_PARTS_OR_NOT_WORKING''),
      (''parts'', ''FOR_PARTS_OR_NOT_WORKING'')]"

record pricing_config =
  base_multiplier :: real
  condition_penalties :: "(string \<times> real) list"
  cache_duration_hours :: int
  sold_items_lookback_days :: int
  min_sold_samples :: int
  outlier_threshold :: real
  fallback_msrp_multiplier :: real

definition PRICING_CONFIG :: pricing_config where
  "PRICING_CONFIG =
     \<lparr>base_multiplier = 0.92,
      condition_penalties =
        [(''LIKE_NEW'', 0.00),
         (''USED_EXCELLENT'', 0.05),
         (''USED_VERY_GOOD'', 0.10),
         (''USED_GOOD'', 0.10),
         (''USED_ACCEPTABLE'', 0.20),
         (''FOR_PARTS_OR_NOT_WORKING'', 0.50)],
      cache_duration_hours = 24,
      sold_items_lookback_days = 30,
      min_sold_samples = 3,
      outlier_threshold = 2.5,
      fallback_msrp_multiplier = 0.50\<rparr>"

record best_offer_config =
  enabled :: bool
  min_offer_percentage :: real
  auto_accept_percentage :: real
  auto_decline_percentage :: real

definition BEST_OFFER_CONFIG :: best_offer_config where
  "BEST_OFFER_CONFIG =
     \<lparr>enabled = True,
      min_offer_percentage = 0.85,
      auto_accept_percentage = 0.95,
      auto_decline_percentage = 0.75\<rparr>"

subsection \<open>Pricing calculator (\<^verbatim>\<open>pricing_engine.calculate_pricing_from_market_data\<close>)\<close>

text \<open>
  The \<^verbatim>\<open>if/elif/elif/else\<close> chain of lines 167 to 196, which assigns
  \<^verbatim>\<open>base_price\<close>, \<^verbatim>\<open>confidence\<close> and \<^verbatim>\<open>reasoning\<close>; \<open>None\<close> is the \<^verbatim>\<open>else\<close>
  branch, where the function returns at once. The test
  \<^verbatim>\<open>retail_price and retail_price > 0\<close> is false for \<^verbatim>\<open>None\<close> and for \<^verbatim>\<open>0.0\<close>
  (both falsy) and for a negative price.
\<close>

definition determine_base_price ::
  "pricing_config \<Rightarrow> MarketData \<Rightarrow> real option \<Rightarrow> (real \<times> real \<times> fstring) option" where
  "determine_base_price config md retail_price =
     (if sold_count md \<ge> min_sold_samples config then
        (let base_price = avg_sold_price md in
         Some (base_price, 0.9,
               [Lit ''Based on '', Num (sold_count md),
                Lit '' sold listings (avg $'', Fix2 base_price, Lit '')'']))
      else if active_listing_count md > 0 then
        (let base_price = avg_active_price md * 0.95 in
         Some (base_price, 0.6,
               [Lit ''Based on '', Num (active_listing_count md),
                Lit '' active listings ($'', Fix2 (avg_active_price md), Lit '' * 0.95)'']))
      else
        (case retail_price of
           None \<Rightarrow> None
         | Some rp \<Rightarrow>
             if rp \<noteq> 0 \<and> rp > 0 then
               (let base_price = rp * fallback_msrp_multiplier config in
                Some (base_price, 0.3,
                      [Lit ''Fallback to '', Flt (fallback_msrp_multiplier config * 100),
                       Lit ''% MSRP ($'', Fix2 rp, Lit '')'']))
             else None))"

definition calculate_pricing_from_market_data ::
  "MarketData \<Rightarrow> string \<Rightarrow> real option \<Rightarrow> PricingRecommendation" where
  "calculate_pricing_from_market_data md cond retail_price =
     (let config = PRICING_CONFIG;
          base_multiplier' = base_multiplier config
      in case determine_base_price config md retail_price of
           None \<Rightarrow>
             \<lparr>buy_it_now_price = 0.0,
              min_offer_price = None, auto_accept_offer = None, auto_decline_offer = None,
              auction_start_price = None, auction_reserve_price = None,
              confidence = 0.0,
              reasoning = [Lit ''No market data or retail price available''],
              market_data = Some md\<rparr>
         | Some (base_price, confidence', reasoning') \<Rightarrow>
             (let condition_penalty = dict_get (condition_penalties config) cond 0.10;
                  price_after_multiplier = base_price * base_multiplier';
                  buy_it_now_price' = price_after_multiplier * (1 - condition_penalty);
                  best_offer_config = BEST_OFFER_CONFIG;
                  min_offer_price' =
                    (if enabled best_offer_config
                     then Some (buy_it_now_price' * min_offer_percentage best_offer_config)
                     else None);
                  auto_accept_offer' =
                    (if enabled best_offer_config
                     then Some (buy_it_now_price' * auto_accept_percentage best_offer_config)
                     else None);
                  auto_decline_offer' =
                    (if enabled best_offer_config
                     then Some (buy_it_now_price' * auto_decline_percentage best_offer_config)
                     else None);
                  detailed_reasoning =
                    reasoning' @ [Lit ''. ''] @
                    [Lit ''Applied '', Flt (base_multiplier' * 100),
                     Lit ''% base multiplier and '', Flt (condition_penalty * 100),
                     Lit ''% condition penalty for '', Lit cond, Lit ''. ''] @
                    [Lit ''Final BIN: $'', Fix2 buy_it_now_price']
              in \<lparr>buy_it_now_price = buy_it_now_price',
                  min_offer_price = min_offer_price',
                  auto_accept_offer = auto_accept_offer',
                  auto_decline_offer = auto_decline_offer',
                  auction_start_price = None,
                  auction_reserve_price = None,
                  confidence = confidence',
                  reasoning = detailed_reasoning,
                  market_data = Some md\<rparr>))"

subsection \<open>Sold statistics (\<^verbatim>\<open>market_research.py\<close>)\<close>

text \<open>
  \<^verbatim>\<open>statistics.mean\<close>, \<^verbatim>\<open>statistics.stdev\<close> (the sample standard deviation, which
  needs two data points) and \<^verbatim>\<open>statistics.median\<close> (the middle element of the sorted
  data, or the mean of the two middle elements), and the builtins \<^verbatim>\<open>min\<close> and
  \<^verbatim>\<open>max\<close>; each raises on an empty list.
\<close>

definition mean :: "real list \<Rightarrow> error + real" where
  "mean xs = (if xs = [] then Inl StatisticsError
              else Inr (sum_list xs / real (length xs)))"

definition stdev :: "real list \<Rightarrow> error + real" where
  "stdev xs =
     (if length xs < 2 then Inl StatisticsError
      else (let m = sum_list xs / real (length xs)
            in Inr (sqrt (sum_list (map (\<lambda>x. (x - m)\<^sup>2) xs) / real (length xs - 1)))))"

definition median :: "real list \<Rightarrow> error + real" where
  "median xs =
     (let data = sort xs; n = length data
      in if n = 0 then Inl StatisticsError
         else if n mod 2 = 1 then Inr (data ! (n div 2))
         else (let i = n div 2 in Inr ((data ! (i - 1) + data ! i) / 2)))"

definition py_min :: "real list \<Rightarrow> error + real" where
  "py_min xs = (case xs of [] \<Rightarrow> Inl ValueError | x # ys \<Rightarrow> Inr (fold min ys x))"

definition py_max :: "real list \<Rightarrow> error + real" where
  "py_max xs = (case xs of [] \<Rightarrow> Inl ValueError | x # ys \<Rightarrow> Inr (fold max ys x))"

text \<open>
  \<^verbatim>\<open>remove_outliers\<close>: the loop appends the prices whose z-score is at most the
  threshold, which is \<open>filter\<close>. An exception inside the \<^verbatim>\<open>try\<close> returns the prices
  unchanged.
\<close>

definition remove_outliers :: "real list \<Rightarrow> real option \<Rightarrow> real list" where
  "remove_outliers prices threshold =
     (let threshold' = (case threshold of
                          None \<Rightarrow> outlier_threshold PRICING_CONFIG
                        | Some t \<Rightarrow> t)
      in if length prices < 3 then prices
         else
           (case mean prices of
              Inl e \<Rightarrow> prices
            | Inr mean' \<Rightarrow>
                (case stdev prices of
                   Inl e \<Rightarrow> prices
                 | Inr stdev' \<Rightarrow>
                     if stdev' = 0 then prices
                     else
                       (let filtered_prices =
                              filter (\<lambda>price. \<bar>(price - mean') / stdev'\<bar> \<le> threshold') prices
                        in if filtered_prices = []
                           then (case median prices of
                                   Inl e \<Rightarrow> prices
                                 | Inr median_price \<Rightarrow> [median_price])
                           else filtered_prices))))"

definition calculate_sold_stats :: "SoldListing list \<Rightarrow> error + sold_stats" where
  "calculate_sold_stats sold_listings' =
     (if sold_listings' = [] then
        Inr \<lparr>sold_stats.avg_sold_price = 0.0,
             sold_stats.median_sold_price = 0.0,
             sold_stats.price_range_low = 0.0,
             sold_stats.price_range_high = 0.0,
             sold_stats.sold_count = 0\<rparr>
      else
        (let prices = map price sold_listings';
             filtered_prices = remove_outliers prices None
         in case mean filtered_prices of
              Inl e \<Rightarrow> Inl e
            | Inr avg_price \<Rightarrow>
           (case median filtered_prices of
              Inl e \<Rightarrow> Inl e
            | Inr median_price \<Rightarrow>
           (case py_min filtered_prices of
              Inl e \<Rightarrow> Inl e
            | Inr min_price \<Rightarrow>
           (case py_max filtered_prices of
              Inl e \<Rightarrow> Inl e
            | Inr max_price \<Rightarrow>
                Inr \<lparr>sold_stats.avg_sold_price = avg_price,
                     sold_stats.median_sold_price = median_price,
                     sold_stats.price_range_low = min_price,
                     sold_stats.price_range_high = max_price,
                     sold_stats.sold_count = int (length sold_listings')\<rparr>)))))"

subsection \<open>Active listings (\<^verbatim>\<open>browse_api.py\<close>)\<close>

definition get_minimum_price_filter :: "string \<Rightarrow> string \<Rightarrow> real" where
  "get_minimum_price_filter brand' model' =
     (let brand_lower = lower brand';
          model_lower = lower model';
          laptop_brands = [''apple'', ''dell'', ''hp'', ''lenovo'', ''asus'', ''acer'',
                           ''microsoft'', ''razer'', ''msi''];
          laptop_keywords = [''macbook'', ''laptop'', ''notebook'', ''chromebook'',
                             ''surface'', ''thinkpad''];
          console_brands = [''nintendo'', ''sony'', ''microsoft'', ''valve''];
          console_keywords = [''switch'', ''playstation'', ''ps4'', ''ps5'', ''xbox'',
                              ''steam deck''];
          tablet_keywords = [''ipad'', ''tablet'', ''tab'', ''kindle''];
          phone_keywords = [''iphone'', ''galaxy'', ''pixel'', ''phone''];
          camera_brands = [''canon'', ''nikon'', ''sony'', ''fujifilm'', ''panasonic'',
                           ''olympus''];
          camera_keywords = [''camera'', ''dslr'', ''mirrorless'']
      in if brand_lower \<in> set laptop_brands \<or> list_ex (contains model_lower) laptop_keywords
         then 200.0
         else if brand_lower \<in> set console_brands
                 \<or> list_ex (contains model_lower) console_keywords
         then 100.0
         else if list_ex (contains model_lower) tablet_keywords then 80.0
         else if list_ex (contains model_lower) phone_keywords then 75.0
         else if brand_lower \<in> set camera_brands
                 \<or> list_ex (contains model_lower) camera_keywords
         then 100.0
         else 50.0)"

text \<open>
  The answer of \<^verbatim>\<open>EbayBrowseAPI.search_active_listings\<close>, an HTTP call, is a parameter;
  \<open>Inl\<close> is an exception out of the call. Of its JSON the function reads
  \<^verbatim>\<open>itemSummaries\<close> and \<^verbatim>\<open>total\<close>, and of each item the price, along one of three
  paths of the loop:
  \<^item> \<open>Priced v\<close>: \<^verbatim>\<open>item['price']['value']\<close> is truthy and \<^verbatim>\<open>float\<close> reads it as
    \<open>v\<close>, which is appended;
  \<^item> \<open>Unpriced\<close>: the item has no \<^verbatim>\<open>price\<close>, or the price no \<^verbatim>\<open>value\<close>, or the value
    is falsy, or \<^verbatim>\<open>float\<close> raises \<^verbatim>\<open>ValueError\<close> or \<^verbatim>\<open>TypeError\<close> on it: the loop
    goes on to the next item;
  \<^item> \<open>Malformed\<close>: the item, or its \<^verbatim>\<open>price\<close>, is not a dictionary, so that
    \<^verbatim>\<open>.get\<close> raises \<^verbatim>\<open>AttributeError\<close>, which leaves the loop for the outer
    \<^verbatim>\<open>except\<close>.
\<close>

datatype item_summary = Priced real | Unpriced | Malformed

record search_results =
  itemSummaries :: "item_summary list"
  total :: int

type_synonym search_fn = "string \<Rightarrow> string \<Rightarrow> string \<Rightarrow> real \<Rightarrow> error + search_results"

fun extract_prices :: "real list \<Rightarrow> item_summary list \<Rightarrow> error + real list" where
  "extract_prices prices [] = Inr prices"
| "extract_prices prices (Priced v # items) = extract_prices (prices @ [v]) items"
| "extract_prices prices (Unpriced # items) = extract_prices prices items"
| "extract_prices prices (Malformed # items) = Inl AttributeError"

definition no_active_stats :: "int \<Rightarrow> active_stats" where
  "no_active_stats n =
     \<lparr>active_stats.avg_active_price = 0.0,
      active_stats.median_active_price = 0.0,
      active_stats.active_listing_count = n,
      active_stats.price_range_low = 0.0,
      active_stats.price_range_high = 0.0\<rparr>"

definition analyze_active_competition ::
  "search_fn \<Rightarrow> string \<Rightarrow> string \<Rightarrow> string \<Rightarrow> error + active_stats" where
  "analyze_active_competition search_active_listings brand' model' condition' =
     (let min_price = get_minimum_price_filter brand' model'
      in case bind_err (search_active_listings brand' model' condition' min_price)
                (\<lambda>results.
                   (let item_summaries = itemSummaries results;
                        total_count = total results
                    in if item_summaries = [] then Inr (no_active_stats 0)
                       else
                         bind_err (extract_prices [] item_summaries) (\<lambda>prices.
                           if prices = [] then Inr (no_active_stats total_count)
                           else
                             bind_err (mean prices) (\<lambda>avg_price.
                             bind_err (median prices) (\<lambda>median_price.
                             bind_err (py_min prices) (\<lambda>min_price'.
                             bind_err (py_max prices) (\<lambda>max_price.
                               Inr \<lparr>active_stats.avg_active_price = avg_price,
                                    active_stats.median_active_price = median_price,
                                    active_stats.active_listing_count =
                                      int (length prices),
                                    active_stats.price_range_low = min_price',
                                    active_stats.price_range_high = max_price\<rparr>))))))) of
           Inl e \<Rightarrow> Inr (no_active_stats 0)
         | Inr stats \<Rightarrow> Inr stats)"

subsection \<open>Cache store (\<^verbatim>\<open>cache_manager.py\<close>)\<close>

definition generate_cache_key :: "string \<Rightarrow> string \<Rightarrow> string \<Rightarrow> string" where
  "generate_cache_key brand' model' condition' =
     (let brand'' = join '' '' (split (lower brand'));
          model'' = join '' '' (split (lower model'));
          condition'' = strip (lower condition')
      in brand'' @ ''_'' @ model'' @ ''_'' @ condition'')"

definition listing_to_json :: "SoldListing \<Rightarrow> listing_doc" where
  "listing_to_json listing =
     \<lparr>listing_doc.title = Some (title listing),
      listing_doc.price = Some (price listing),
      listing_doc.sold_date = Some (isoformat (sold_date listing)),
      listing_doc.condition = Some (SoldListing.condition listing),
      listing_doc.source = Some (source listing),
      listing_doc.url = url listing\<rparr>"

definition serialize_market_data :: "MarketData \<Rightarrow> jtext" where
  "serialize_market_data md =
     (let sold_listings_data = map listing_to_json (sold_listings md);
          data_dict =
            \<lparr>market_doc.brand = Some (brand md),
             market_doc.model = Some (model md),
             market_doc.condition = Some (MarketData.condition md),
             market_doc.avg_sold_price = Some (avg_sold_price md),
             market_doc.median_sold_price = Some (median_sold_price md),
             market_doc.price_range_low = Some (price_range_low md),
             market_doc.price_range_high = Some (price_range_high md),
             market_doc.sold_count = Some (sold_count md),
             market_doc.sold_listings = Some sold_listings_data,
             market_doc.active_listing_count = Some (active_listing_count md),
             market_doc.avg_active_price = Some (avg_active_price md),
             market_doc.median_active_price = Some (median_active_price md),
             market_doc.confidence = Some (MarketData.confidence md),
             market_doc.sources = Some (sources md)\<rparr>
      in json_dumps (JDict data_dict))"

definition listing_of_json :: "listing_doc \<Rightarrow> error + SoldListing" where
  "listing_of_json listing_data =
     bind_err (subscript ''title'' (listing_doc.title listing_data)) (\<lambda>title'.
     bind_err (subscript ''price'' (listing_doc.price listing_data)) (\<lambda>price'.
     bind_err (bind_err (subscript ''sold_date'' (listing_doc.sold_date listing_data))
                 fromisoformat) (\<lambda>sold_date'.
     bind_err (subscript ''condition'' (listing_doc.condition listing_data)) (\<lambda>condition'.
     bind_err (subscript ''source'' (listing_doc.source listing_data)) (\<lambda>source'.
       Inr \<lparr>title = title', price = price', sold_date = sold_date',
            SoldListing.condition = condition', source = source',
            url = listing_doc.url listing_data\<rparr>)))))"

fun listings_of_json :: "listing_doc list \<Rightarrow> error + SoldListing list" where
  "listings_of_json [] = Inr []"
| "listings_of_json (listing_data # rest) =
     bind_err (listing_of_json listing_data) (\<lambda>listing.
     bind_err (listings_of_json rest) (\<lambda>listings. Inr (listing # listings)))"

text \<open>
  \<^verbatim>\<open>_deserialize_market_data\<close>; the clock reading is the default of \<^verbatim>\<open>created_at\<close>
  in the constructor, and \<^verbatim>\<open>data_age_hours\<close> gets its default \<^verbatim>\<open>0.0\<close>. On a JSON
  value that is not a dictionary the first \<^verbatim>\<open>data_dict.get\<close> raises
  \<^verbatim>\<open>AttributeError\<close>. The loop over the listings runs before the constructor's
  arguments are read.
\<close>

definition deserialize_market_data :: "datetime \<Rightarrow> jtext \<Rightarrow> error + MarketData" where
  "deserialize_market_data now data_json' =
     bind_err (json_loads data_json') (\<lambda>loaded.
       case loaded of
         JOther \<Rightarrow> Inl AttributeError
       | JDict data_dict \<Rightarrow>
     bind_err (listings_of_json (get_or [] (market_doc.sold_listings data_dict)))
       (\<lambda>sold_listings'.
     bind_err (subscript ''brand'' (market_doc.brand data_dict)) (\<lambda>brand'.
     bind_err (subscript ''model'' (market_doc.model data_dict)) (\<lambda>model'.
     bind_err (subscript ''condition'' (market_doc.condition data_dict)) (\<lambda>condition'.
       Inr \<lparr>brand = brand', model = model', condition = condition',
            avg_sold_price = get_or 0.0 (market_doc.avg_sold_price data_dict),
            median_sold_price = get_or 0.0 (market_doc.median_sold_price data_dict),
            price_range_low = get_or 0.0 (market_doc.price_range_low data_dict),
            price_range_high = get_or 0.0 (market_doc.price_range_high data_dict),
            sold_count = get_or 0 (market_doc.sold_count data_dict),
            sold_listings = sold_listings',
            active_listing_count = get_or 0 (market_doc.active_listing_count data_dict),
            avg_active_price = get_or 0.0 (market_doc.avg_active_price data_dict),
            median_active_price = get_or 0.0 (market_doc.median_active_price data_dict),
            MarketData.confidence = get_or 0.0 (market_doc.confidence data_dict),
            data_age_hours = 0.0,
            sources = get_or [] (market_doc.sources data_dict),
            created_at = now\<rparr>)))))"

definition delete_cache_entry :: "market_cache \<Rightarrow> string \<Rightarrow> market_cache" where
  "delete_cache_entry db cache_key = db(cache_key := None)"

text \<open>
  \<^verbatim>\<open>get_cached_market_data\<close> reads the clock for the expiry test (\<open>now_expiry\<close>), in
  the constructor of the deserialized record (\<open>now_init\<close>) and for the age
  (\<open>now_age\<close>). It returns the answer and the table; \<open>Inl\<close> is the exception of
  \<^verbatim>\<open>datetime.fromisoformat(expires_at)\<close>, which is outside the \<^verbatim>\<open>try\<close>.
\<close>

definition get_cached_market_data ::
  "datetime \<Rightarrow> datetime \<Rightarrow> datetime \<Rightarrow> market_cache \<Rightarrow> string \<Rightarrow> string \<Rightarrow> string
     \<Rightarrow> error + (MarketData option \<times> market_cache)" where
  "get_cached_market_data now_expiry now_init now_age db brand' model' condition' =
     (let cache_key = generate_cache_key brand' model' condition'
      in case db cache_key of
           None \<Rightarrow> Inr (None, db)
         | Some row \<Rightarrow>
             bind_err (fromisoformat (market_cache_row.expires_at row)) (\<lambda>expires_at'.
               if now_expiry > expires_at' then Inr (None, delete_cache_entry db cache_key)
               else
                 (case bind_err (deserialize_market_data now_init (data_json row))
                         (\<lambda>market_data'.
                       bind_err (fromisoformat (market_cache_row.created_at row))
                         (\<lambda>created_at_dt.
                         (let age_hours = total_seconds (now_age - created_at_dt) / 3600
                          in Inr (market_data'\<lparr>data_age_hours := age_hours\<rparr>)))) of
                    Inr market_data' \<Rightarrow> Inr (Some market_data', db)
                  | Inl e \<Rightarrow> Inr (None, delete_cache_entry db cache_key))))"

definition cache_market_data :: "datetime \<Rightarrow> market_cache \<Rightarrow> MarketData \<Rightarrow> market_cache" where
  "cache_market_data now db md =
     (let cache_key = generate_cache_key (brand md) (model md) (MarketData.condition md);
          data_json' = serialize_market_data md;
          created_at' = now;
          cache_duration = timedelta_hours (cache_duration_hours PRICING_CONFIG);
          expires_at' = created_at' + cache_duration
      in db(cache_key \<mapsto>
              \<lparr>market_cache_row.brand = brand md,
               market_cache_row.model = model md,
               market_cache_row.condition = MarketData.condition md,
               data_json = data_json',
               market_cache_row.created_at = isoformat created_at',
               market_cache_row.expires_at = isoformat expires_at'\<rparr>))"

subsection \<open>Market data aggregator and entry point (\<^verbatim>\<open>pricing_engine.py\<close>)\<close>

text \<open>
  The two source calls of \<^verbatim>\<open>fetch_market_data\<close> are parameters: each returns its
  result or raises (\<open>Inl\<close>). Both calls sit in a \<^verbatim>\<open>try/except Exception\<close> that logs
  and goes on with the record as it is at that moment.
\<close>

type_synonym research_fn = "string \<Rightarrow> string \<Rightarrow> string \<Rightarrow> error + SoldListing list"

type_synonym analyze_fn = "string \<Rightarrow> string \<Rightarrow> string \<Rightarrow> error + active_stats"

definition fetch_market_data ::
  "research_fn \<Rightarrow> analyze_fn \<Rightarrow> datetime \<Rightarrow> string \<Rightarrow> string \<Rightarrow> string \<Rightarrow> error + MarketData" where
  "fetch_market_data research_sold_comps_ai analyze_active_competition' now
       brand' model' condition' =
     (let market_data0 = MarketData_init now brand' model' condition';
          market_data1 =
            (case research_sold_comps_ai brand' model' condition' of
               Inl e \<Rightarrow> market_data0
             | Inr sold_listings' \<Rightarrow>
                 if sold_listings' \<noteq> [] then
                   (let md = market_data0\<lparr>sold_listings := sold_listings'\<rparr>
                    in case calculate_sold_stats sold_listings' of
                         Inl e \<Rightarrow> md
                       | Inr stats \<Rightarrow>
                           md\<lparr>avg_sold_price := sold_stats.avg_sold_price stats,
                              median_sold_price := sold_stats.median_sold_price stats,
                              price_range_low := sold_stats.price_range_low stats,
                              price_range_high := sold_stats.price_range_high stats,
                              sold_count := sold_stats.sold_count stats,
                              sources := sources md @ [''ai_research'']\<rparr>)
                 else market_data0);
          market_data2 =
            (case analyze_active_competition' brand' model' condition' of
               Inl e \<Rightarrow> market_data1
             | Inr stats \<Rightarrow>
                 if active_stats.active_listing_count stats > 0 then
                   market_data1
                     \<lparr>avg_active_price := active_stats.avg_active_price stats,
                      median_active_price := active_stats.median_active_price stats,
                      active_listing_count := active_stats.active_listing_count stats,
                      sources := sources market_data1 @ [''browse_api'']\<rparr>
                 else market_data1)
      in Inr market_data2)"

text \<open>
  \<^verbatim>\<open>get_pricing_recommendation\<close>. The UPC lookup is a parameter, the clock readings
  are those of \<^verbatim>\<open>get_cached_market_data\<close>, of the constructor in
  \<^verbatim>\<open>fetch_market_data\<close> (\<open>now_fetch\<close>) and of \<^verbatim>\<open>cache_market_data\<close>
  (\<open>now_store\<close>), and the global cache instance is the table passed in and returned.
  \<^verbatim>\<open>not retail_price\<close> holds for \<^verbatim>\<open>None\<close> and \<^verbatim>\<open>0.0\<close>.
\<close>

record clock =
  now_expiry :: datetime
  now_init :: datetime
  now_age :: datetime
  now_fetch :: datetime
  now_store :: datetime

type_synonym lookup_fn = "string \<Rightarrow> upc_data option"

definition truthy :: "real option \<Rightarrow> bool" where
  "truthy x = (case x of None \<Rightarrow> False | Some v \<Rightarrow> v \<noteq> 0)"

text \<open>
  Lines 36 to 56: the brand, the product name and the retail price after the optional
  UPC lookup. Line 61: the condition in eBay's spelling.
\<close>

definition resolve_upc ::
  "lookup_fn \<Rightarrow> string \<Rightarrow> string \<Rightarrow> real option \<Rightarrow> string option
     \<Rightarrow> string \<times> string \<times> real option" where
  "resolve_upc lookup_product brand' model' retail_price upc =
     (let found = (case upc of
                     None \<Rightarrow> None
                   | Some u \<Rightarrow> if u = [] then None else lookup_product u)
      in case found of
           None \<Rightarrow> (brand', model', retail_price)
         | Some d \<Rightarrow>
             (let product_name = (if upc_data.title d \<noteq> [] then upc_data.title d else model');
                  retail_price' = (if \<not> truthy retail_price \<and> truthy (msrp d) then msrp d
                                   else retail_price);
                  brand'' = (if upc_data.brand d \<noteq> [] then upc_data.brand d else brand')
              in (brand'', product_name, retail_price')))"

definition normalize_condition :: "string \<Rightarrow> string" where
  "normalize_condition condition' =
     upper (dict_get CONDITION_MAPPINGS (lower condition') condition')"

definition get_pricing_recommendation ::
  "lookup_fn \<Rightarrow> research_fn \<Rightarrow> analyze_fn \<Rightarrow> clock \<Rightarrow> market_cache
     \<Rightarrow> string \<Rightarrow> string \<Rightarrow> string \<Rightarrow> real option \<Rightarrow> string option
     \<Rightarrow> error + (PricingRecommendation \<times> market_cache)" where
  "get_pricing_recommendation lookup_product research_sold_comps_ai
       analyze_active_competition' clk cache brand' model' condition' retail_price upc =
     (case resolve_upc lookup_product brand' model' retail_price upc of
        (brand'', product_name, retail_price') \<Rightarrow>
     (let normalized_condition = normalize_condition condition'
      in bind_err (get_cached_market_data (now_expiry clk) (now_init clk) (now_age clk)
                     cache brand'' product_name normalized_condition)
           (\<lambda>(cached, cache1).
              case cached of
                None \<Rightarrow>
                  bind_err (fetch_market_data research_sold_comps_ai
                              analyze_active_competition' (now_fetch clk)
                              brand'' product_name normalized_condition)
                    (\<lambda>market_data'.
                       (let cache2 =
                              (if sold_count market_data' > 0
                                  \<or> active_listing_count market_data' > 0
                               then cache_market_data (now_store clk) cache1 market_data'
                               else cache1)
                        in Inr (calculate_pricing_from_market_data market_data'
                                  normalized_condition retail_price', cache2)))
              | Some market_data' \<Rightarrow>
                  Inr (calculate_pricing_from_market_data market_data'
                         normalized_condition retail_price', cache1))))"

subsection \<open>The specification's statistics\<close>

text \<open>
  The quantities that the specification of \<^verbatim>\<open>calculate_sold_stats\<close> names, written
  from its words and not from the code: the mean, the sample variance (whose root is
  the sample standard deviation), the z-score of a price and the median.
\<close>

definition sample_mean :: "real list \<Rightarrow> real" where
  "sample_mean xs = sum_list xs / real (length xs)"

definition sample_variance :: "real list \<Rightarrow> real" where
  "sample_variance xs =
     sum_list (map (\<lambda>x. (x - sample_mean xs)\<^sup>2) xs) / real (length xs - 1)"

definition z_score :: "real list \<Rightarrow> real \<Rightarrow> real" where
  "z_score xs x = \<bar>(x - sample_mean xs) / sqrt (sample_variance xs)\<bar>"

definition middle :: "real list \<Rightarrow> real" where
  "middle xs =
     (if odd (length xs) then sort xs ! (length xs div 2)
      else (sort xs ! (length xs div 2 - 1) + sort xs ! (length xs div 2)) / 2)"

subsection \<open>Concrete inputs\<close>

text \<open>
  A sold listing as \<^verbatim>\<open>_parse_results_with_ai\<close> builds it, a record with three sold
  listings, a cache row whose text is not JSON, a cache row whose \<^verbatim>\<open>created_at\<close> is
  not a timestamp, two cache rows whose \<^verbatim>\<open>expires_at\<close> is not a timestamp (one of
  them with a text that is not JSON either), the records that two of the runs below fetch, and collaborators
  with fixed answers:
  a UPC lookup that finds nothing, a research that finds no sold listing, an analysis
  that finds no active listing, one that finds four, a search whose only item carries
  no usable price while eBay reports a total of 7, and a search with an item that is
  not a dictionary.
\<close>

definition example_listing :: "real \<Rightarrow> SoldListing" where
  "example_listing p =
     \<lparr>title = ''Apple iPad Air'', price = p, sold_date = 0,
      SoldListing.condition = ''Used'', source = ''tavily_ai'', url = None\<rparr>"

definition example_market_data :: MarketData where
  "example_market_data =
     (MarketData_init 0 ''Apple'' ''iPad Air'' ''LIKE_NEW'')
       \<lparr>avg_sold_price := 200, sold_count := 3,
        sold_listings := [example_listing 200], sources := [''ai_research'']\<rparr>"

definition corrupt_row :: market_cache_row where
  "corrupt_row =
     \<lparr>market_cache_row.brand = ''Apple'', market_cache_row.model = ''iPad Air'',
      market_cache_row.condition = ''LIKE_NEW'', data_json = Garbled,
      market_cache_row.created_at = isoformat 0,
      market_cache_row.expires_at = isoformat 86400000000\<rparr>"

definition misdated_row :: market_cache_row where
  "misdated_row =
     \<lparr>market_cache_row.brand = ''Apple'', market_cache_row.model = ''iPad Air'',
      market_cache_row.condition = ''LIKE_NEW'',
      data_json = serialize_market_data example_market_data,
      market_cache_row.created_at = ''yesterday'',
      market_cache_row.expires_at = isoformat 86400000000\<rparr>"

definition undated_row :: market_cache_row where
  "undated_row =
     \<lparr>market_cache_row.brand = ''Apple'', market_cache_row.model = ''iPad Air'',
      market_cache_row.condition = ''LIKE_NEW'',
      data_json = serialize_market_data example_market_data,
      market_cache_row.created_at = isoformat 0,
      market_cache_row.expires_at = ''tomorrow''\<rparr>"

definition garbled_undated_row :: market_cache_row where
  "garbled_undated_row =
     \<lparr>market_cache_row.brand = ''Apple'', market_cache_row.model = ''iPad Air'',
      market_cache_row.condition = ''LIKE_NEW'',
      data_json = Garbled,
      market_cache_row.created_at = isoformat 0,
      market_cache_row.expires_at = ''tomorrow''\<rparr>"

definition example_clock :: clock where
  "example_clock =
     \<lparr>now_expiry = 10, now_init = 11, now_age = 12, now_fetch = 13, now_store = 14\<rparr>"

definition no_upc :: lookup_fn where
  "no_upc u = None"

definition no_sold_comps :: research_fn where
  "no_sold_comps b m c = Inr []"

definition research_timeout :: research_fn where
  "research_timeout b m c = Inl (CollaboratorError ''timeout'')"

definition no_active_listings :: analyze_fn where
  "no_active_listings b m c = Inr (no_active_stats 0)"

definition analysis_fails :: analyze_fn where
  "analysis_fails b m c = Inl (CollaboratorError ''HTTP 500'')"

definition four_active_listings :: analyze_fn where
  "four_active_listings b m c =
     Inr \<lparr>active_stats.avg_active_price = 250,
          active_stats.median_active_price = 240,
          active_stats.active_listing_count = 4,
          active_stats.price_range_low = 200,
          active_stats.price_range_high = 300\<rparr>"

definition search_without_prices :: search_fn where
  "search_without_prices b m c min_price = Inr \<lparr>itemSummaries = [Unpriced], total = 7\<rparr>"

definition search_with_malformed_item :: search_fn where
  "search_with_malformed_item b m c min_price =
     Inr \<lparr>itemSummaries = [Priced 250, Malformed], total = 7\<rparr>"

definition priceless_market_data :: MarketData where
  "priceless_market_data =
     (MarketData_init 0 ''Apple'' ''iPad Air'' ''USED_GOOD'')
       \<lparr>active_listing_count := 7, sources := [''browse_api'']\<rparr>"

definition active_market_data :: MarketData where
  "active_market_data =
     (MarketData_init 13 ''Apple'' ''iPad Air'' ''LIKE_NEW'')
       \<lparr>active_listing_count := 4, avg_active_price := 250, median_active_price := 240,
        sources := [''browse_api'']\<rparr>"

section \<open>Properties\<close>

subsection \<open>Pricing calculator\<close>

text \<open>
  The penalties of three conditions, and what \<open>calculate_pricing_from_market_data\<close>
  returns once the tier is known.
\<close>

lemma penalty_values:
  "dict_get (condition_penalties PRICING_CONFIG) ''LIKE_NEW'' (1 / 10) = 0"
  "dict_get (condition_penalties PRICING_CONFIG) ''USED_GOOD'' (1 / 10) = 1 / 10"
  "dict_get (condition_penalties PRICING_CONFIG) ''FOR_PARTS_OR_NOT_WORKING'' (1 / 10) = 1 / 2"
  by (simp_all add: dict_get_def PRICING_CONFIG_def)

lemma pricing_of_tier:
  assumes "determine_base_price PRICING_CONFIG md rp = Some (b, c, r)"
  shows "buy_it_now_price (calculate_pricing_from_market_data md cond rp)
           = b * 0.92 * (1 - dict_get (condition_penalties PRICING_CONFIG) cond 0.10)"
    and "PricingRecommendation.confidence (calculate_pricing_from_market_data md cond rp) = c"
    and "min_offer_price (calculate_pricing_from_market_data md cond rp)
           = Some (buy_it_now_price (calculate_pricing_from_market_data md cond rp) * 0.85)"
    and "auto_accept_offer (calculate_pricing_from_market_data md cond rp)
           = Some (buy_it_now_price (calculate_pricing_from_market_data md cond rp) * 0.95)"
    and "auto_decline_offer (calculate_pricing_from_market_data md cond rp)
           = Some (buy_it_now_price (calculate_pricing_from_market_data md cond rp) * 0.75)"
  using assms
  by (simp_all add: calculate_pricing_from_market_data_def Let_def BEST_OFFER_CONFIG_def
        PRICING_CONFIG_def)

lemma pricing_no_tier:
  assumes "determine_base_price PRICING_CONFIG md rp = None"
  shows "calculate_pricing_from_market_data md cond rp =
           \<lparr>buy_it_now_price = 0, min_offer_price = None, auto_accept_offer = None,
            auto_decline_offer = None, auction_start_price = None,
            auction_reserve_price = None, confidence = 0,
            reasoning = [Lit ''No market data or retail price available''],
            market_data = Some md\<rparr>"
  using assms by (simp add: calculate_pricing_from_market_data_def Let_def)

text \<open>
  Claim C1. The base price comes from the first tier that applies, in this order: with
  at least 3 sold listings it is the average sold price and the confidence is 0.9,
  whatever the active listings are; otherwise, with an active listing, it is the average
  active price times 0.95 and the confidence is 0.6; otherwise, with a retail price above
  zero, it is half the retail price and the confidence is 0.3. In each case the
  buy-it-now price is the base price times 0.92 times one minus the condition's penalty.
\<close>

theorem tier_selection_order:
  "(3 \<le> sold_count md \<longrightarrow>
      map_option fst (determine_base_price PRICING_CONFIG md rp) = Some (avg_sold_price md)
    \<and> PricingRecommendation.confidence (calculate_pricing_from_market_data md cond rp) = 0.9
    \<and> buy_it_now_price (calculate_pricing_from_market_data md cond rp)
        = avg_sold_price md * 0.92 * (1 - dict_get (condition_penalties PRICING_CONFIG) cond 0.10))
 \<and> (sold_count md < 3 \<and> 0 < active_listing_count md \<longrightarrow>
      map_option fst (determine_base_price PRICING_CONFIG md rp) = Some (avg_active_price md * 0.95)
    \<and> PricingRecommendation.confidence (calculate_pricing_from_market_data md cond rp) = 0.6
    \<and> buy_it_now_price (calculate_pricing_from_market_data md cond rp)
        = avg_active_price md * 0.95 * 0.92 * (1 - dict_get (condition_penalties PRICING_CONFIG) cond 0.10))
 \<and> (sold_count md < 3 \<and> active_listing_count md \<le> 0 \<and> rp = Some r \<and> 0 < r \<longrightarrow>
      map_option fst (determine_base_price PRICING_CONFIG md rp) = Some (r * 0.50)
    \<and> PricingRecommendation.confidence (calculate_pricing_from_market_data md cond rp) = 0.3
    \<and> buy_it_now_price (calculate_pricing_from_market_data md cond rp)
        = r * 0.50 * 0.92 * (1 - dict_get (condition_penalties PRICING_CONFIG) cond 0.10))"
  by (simp add: determine_base_price_def calculate_pricing_from_market_data_def Let_def PRICING_CONFIG_def
      BEST_OFFER_CONFIG_def)

text \<open>
  The three tiers at concrete records: 5 sold and 10 active listings price from the sold
  average; 2 sold and 10 active listings from the active average; no listings and a
  retail price of 599 from the retail price.
\<close>

theorem tier_selection_order_witness:
  "PricingRecommendation.confidence
     (calculate_pricing_from_market_data
        ((MarketData_init 0 ''Apple'' ''iPad Air'' ''LIKE_NEW'')
           \<lparr>avg_sold_price := 200, sold_count := 5,
            active_listing_count := 10, avg_active_price := 300\<rparr>)
        ''LIKE_NEW'' None) = 0.9
   \<and> buy_it_now_price
     (calculate_pricing_from_market_data
        ((MarketData_init 0 ''Apple'' ''iPad Air'' ''LIKE_NEW'')
           \<lparr>avg_sold_price := 200, sold_count := 5,
            active_listing_count := 10, avg_active_price := 300\<rparr>)
        ''LIKE_NEW'' None) = 184
   \<and> PricingRecommendation.confidence
     (calculate_pricing_from_market_data
        ((MarketData_init 0 ''Apple'' ''iPad Air'' ''LIKE_NEW'')
           \<lparr>avg_sold_price := 200, sold_count := 2,
            active_listing_count := 10, avg_active_price := 300\<rparr>)
        ''LIKE_NEW'' None) = 0.6
   \<and> buy_it_now_price
     (calculate_pricing_from_market_data
        ((MarketData_init 0 ''Apple'' ''iPad Air'' ''LIKE_NEW'')
           \<lparr>avg_sold_price := 200, sold_count := 2,
            active_listing_count := 10, avg_active_price := 300\<rparr>)
        ''LIKE_NEW'' None) = 262.2
   \<and> PricingRecommendation.confidence
     (calculate_pricing_from_market_data
        (MarketData_init 0 ''Apple'' ''iPad Air'' ''LIKE_NEW'') ''LIKE_NEW'' (Some 599)) = 0.3
   \<and> buy_it_now_price
     (calculate_pricing_from_market_data
        (MarketData_init 0 ''Apple'' ''iPad Air'' ''LIKE_NEW'') ''LIKE_NEW'' (Some 599)) = 275.54"
  using
    tier_selection_order [of "(MarketData_init 0 ''Apple'' ''iPad Air'' ''LIKE_NEW'')
           \<lparr>avg_sold_price := 200, sold_count := 5,
            active_listing_count := 10, avg_active_price := 300\<rparr>" None "''LIKE_NEW''" 0]
    tier_selection_order [of "(MarketData_init 0 ''Apple'' ''iPad Air'' ''LIKE_NEW'')
           \<lparr>avg_sold_price := 200, sold_count := 2,
            active_listing_count := 10, avg_active_price := 300\<rparr>" None "''LIKE_NEW''" 0]
    tier_selection_order [of "MarketData_init 0 ''Apple'' ''iPad Air'' ''LIKE_NEW''" "Some 599" "''LIKE_NEW''" 599]
  by (simp add: MarketData_init_def dict_get_def PRICING_CONFIG_def)


text \<open>
  Claim C4. For a record without sold and without active listings, and a retail price
  that is absent or not above zero, the recommendation is the no-data one: buy-it-now
  price 0.0, confidence 0.0, the reasoning \<^verbatim>\<open>No market data or retail price available\<close>,
  and no best-offer threshold.
\<close>

theorem no_data_terminal:
  assumes "sold_count md = 0" and "active_listing_count md = 0"
    and "rp = None \<or> (\<exists>r. rp = Some r \<and> \<not> 0 < r)"
  shows "calculate_pricing_from_market_data md cond rp =
           \<lparr>buy_it_now_price = 0, min_offer_price = None, auto_accept_offer = None,
            auto_decline_offer = None, auction_start_price = None,
            auction_reserve_price = None, confidence = 0,
            reasoning = [Lit ''No market data or retail price available''],
            market_data = Some md\<rparr>"
proof -
  from assms have "determine_base_price PRICING_CONFIG md rp = None"
    by (auto simp: determine_base_price_def PRICING_CONFIG_def)
  then show ?thesis by (rule pricing_no_tier)
qed

text \<open>The no-data recommendation for an absent, a negative and a zero retail price.\<close>

theorem no_data_terminal_witness:
  "calculate_pricing_from_market_data
     (MarketData_init 0 ''Apple'' ''iPad Air'' ''LIKE_NEW'') ''LIKE_NEW'' None =
     \<lparr>buy_it_now_price = 0, min_offer_price = None, auto_accept_offer = None,
      auto_decline_offer = None, auction_start_price = None,
      auction_reserve_price = None, confidence = 0,
      reasoning = [Lit ''No market data or retail price available''],
      market_data = Some (MarketData_init 0 ''Apple'' ''iPad Air'' ''LIKE_NEW'')\<rparr>
   \<and> buy_it_now_price (calculate_pricing_from_market_data
        (MarketData_init 0 ''Apple'' ''iPad Air'' ''LIKE_NEW'') ''LIKE_NEW'' (Some (- 5))) = 0
   \<and> PricingRecommendation.confidence (calculate_pricing_from_market_data
        (MarketData_init 0 ''Apple'' ''iPad Air'' ''LIKE_NEW'') ''LIKE_NEW'' (Some 0)) = 0"
  using
    no_data_terminal [of "MarketData_init 0 ''Apple'' ''iPad Air'' ''LIKE_NEW''" None "''LIKE_NEW''"]
    no_data_terminal [of "MarketData_init 0 ''Apple'' ''iPad Air'' ''LIKE_NEW''" "Some (- 5)" "''LIKE_NEW''"]
    no_data_terminal [of "MarketData_init 0 ''Apple'' ''iPad Air'' ''LIKE_NEW''" "Some 0" "''LIKE_NEW''"]
  by (simp add: MarketData_init_def)

text \<open>
  Claim C6. Whenever a tier prices the item, the best-offer thresholds are fixed
  fractions of the buy-it-now price: the minimum offer is 0.85 of it, the auto-accept
  threshold 0.95 and the auto-decline threshold 0.75. For 3 sold listings at an average
  of 200.00 and the condition \<^verbatim>\<open>USED_GOOD\<close> the buy-it-now price is 165.60 and the
  thresholds are 140.76, 157.32 and 124.20.
\<close>

theorem best_offer_thresholds:
  "(determine_base_price PRICING_CONFIG md rp \<noteq> None \<longrightarrow>
      min_offer_price (calculate_pricing_from_market_data md cond rp)
        = Some (buy_it_now_price (calculate_pricing_from_market_data md cond rp) * 0.85)
    \<and> auto_accept_offer (calculate_pricing_from_market_data md cond rp)
        = Some (buy_it_now_price (calculate_pricing_from_market_data md cond rp) * 0.95)
    \<and> auto_decline_offer (calculate_pricing_from_market_data md cond rp)
        = Some (buy_it_now_price (calculate_pricing_from_market_data md cond rp) * 0.75))
 \<and> (sold_count md = 3 \<and> avg_sold_price md = 200.00 \<longrightarrow>
      buy_it_now_price (calculate_pricing_from_market_data md ''USED_GOOD'' rp) = 165.60
    \<and> min_offer_price (calculate_pricing_from_market_data md ''USED_GOOD'' rp) = Some 140.76
    \<and> auto_accept_offer (calculate_pricing_from_market_data md ''USED_GOOD'' rp) = Some 157.32
    \<and> auto_decline_offer (calculate_pricing_from_market_data md ''USED_GOOD'' rp) = Some 124.20)"
proof (intro conjI impI)
  assume "sold_count md = 3 \<and> avg_sold_price md = 200.00"
  then have t: "determine_base_price PRICING_CONFIG md rp =
      Some (200, 0.9, [Lit ''Based on '', Num 3, Lit '' sold listings (avg $'', Fix2 200, Lit '')''])"
    by (simp add: determine_base_price_def PRICING_CONFIG_def)
  have bin: "buy_it_now_price (calculate_pricing_from_market_data md ''USED_GOOD'' rp) = 165.60"
    using pricing_of_tier(1) [OF t, of "''USED_GOOD''"] by (simp add: penalty_values)
  show "buy_it_now_price (calculate_pricing_from_market_data md ''USED_GOOD'' rp) = 165.60"
    by (rule bin)
  show "min_offer_price (calculate_pricing_from_market_data md ''USED_GOOD'' rp) = Some 140.76"
    using pricing_of_tier(3) [OF t, of "''USED_GOOD''"] bin by simp
  show "auto_accept_offer (calculate_pricing_from_market_data md ''USED_GOOD'' rp) = Some 157.32"
    using pricing_of_tier(4) [OF t, of "''USED_GOOD''"] bin by simp
  show "auto_decline_offer (calculate_pricing_from_market_data md ''USED_GOOD'' rp) = Some 124.20"
    using pricing_of_tier(5) [OF t, of "''USED_GOOD''"] bin by simp
next
  assume "determine_base_price PRICING_CONFIG md rp \<noteq> None"
  then obtain b c r where t: "determine_base_price PRICING_CONFIG md rp = Some (b, c, r)"
    by (cases "determine_base_price PRICING_CONFIG md rp") auto
  show "min_offer_price (calculate_pricing_from_market_data md cond rp)
        = Some (buy_it_now_price (calculate_pricing_from_market_data md cond rp) * 0.85)"
    by (rule pricing_of_tier(3) [OF t])
  show "auto_accept_offer (calculate_pricing_from_market_data md cond rp)
        = Some (buy_it_now_price (calculate_pricing_from_market_data md cond rp) * 0.95)"
    by (rule pricing_of_tier(4) [OF t])
  show "auto_decline_offer (calculate_pricing_from_market_data md cond rp)
        = Some (buy_it_now_price (calculate_pricing_from_market_data md cond rp) * 0.75)"
    by (rule pricing_of_tier(5) [OF t])
qed

text \<open>The scenario of the claim at a concrete record.\<close>

theorem best_offer_thresholds_witness:
  "buy_it_now_price (calculate_pricing_from_market_data
       ((MarketData_init 0 ''Dell'' ''XPS 13'' ''USED_GOOD'')
          \<lparr>avg_sold_price := 200, sold_count := 3\<rparr>) ''USED_GOOD'' None) = 165.60
   \<and> min_offer_price (calculate_pricing_from_market_data
       ((MarketData_init 0 ''Dell'' ''XPS 13'' ''USED_GOOD'')
          \<lparr>avg_sold_price := 200, sold_count := 3\<rparr>) ''USED_GOOD'' None) = Some 140.76
   \<and> auto_accept_offer (calculate_pricing_from_market_data
       ((MarketData_init 0 ''Dell'' ''XPS 13'' ''USED_GOOD'')
          \<lparr>avg_sold_price := 200, sold_count := 3\<rparr>) ''USED_GOOD'' None) = Some 157.32
   \<and> auto_decline_offer (calculate_pricing_from_market_data
       ((MarketData_init 0 ''Dell'' ''XPS 13'' ''USED_GOOD'')
          \<lparr>avg_sold_price := 200, sold_count := 3\<rparr>) ''USED_GOOD'' None) = Some 124.20
   \<and> determine_base_price PRICING_CONFIG
       ((MarketData_init 0 ''Dell'' ''XPS 13'' ''USED_GOOD'')
          \<lparr>avg_sold_price := 200, sold_count := 3\<rparr>) None \<noteq> None"
  using best_offer_thresholds [of "(MarketData_init 0 ''Dell'' ''XPS 13'' ''USED_GOOD'')
          \<lparr>avg_sold_price := 200, sold_count := 3\<rparr>" None "''USED_GOOD''"]
  by (simp add: MarketData_init_def determine_base_price_def PRICING_CONFIG_def)

text \<open>
  Claim C9. For a positive base price selected by a tier, the buy-it-now price for
  \<^verbatim>\<open>FOR_PARTS_OR_NOT_WORKING\<close> is strictly below the one for \<^verbatim>\<open>USED_GOOD\<close>, which is
  strictly below the one for \<^verbatim>\<open>LIKE_NEW\<close>, everything else being equal.
\<close>

theorem condition_penalty_monotone:
  assumes "determine_base_price PRICING_CONFIG md rp = Some (b, c, r)" and "0 < b"
  shows "buy_it_now_price (calculate_pricing_from_market_data md ''FOR_PARTS_OR_NOT_WORKING'' rp)
           < buy_it_now_price (calculate_pricing_from_market_data md ''USED_GOOD'' rp)
       \<and> buy_it_now_price (calculate_pricing_from_market_data md ''USED_GOOD'' rp)
           < buy_it_now_price (calculate_pricing_from_market_data md ''LIKE_NEW'' rp)"
  using assms(2)
  by (simp add: pricing_of_tier(1) [OF assms(1)] penalty_values)

text \<open>The three prices for 3 sold listings at an average of 200.\<close>

theorem condition_penalty_monotone_witness:
  "buy_it_now_price (calculate_pricing_from_market_data
       ((MarketData_init 0 ''Dell'' ''XPS 13'' ''USED_GOOD'')
          \<lparr>avg_sold_price := 200, sold_count := 3\<rparr>) ''FOR_PARTS_OR_NOT_WORKING'' None)
     < buy_it_now_price (calculate_pricing_from_market_data
       ((MarketData_init 0 ''Dell'' ''XPS 13'' ''USED_GOOD'')
          \<lparr>avg_sold_price := 200, sold_count := 3\<rparr>) ''USED_GOOD'' None)
   \<and> buy_it_now_price (calculate_pricing_from_market_data
       ((MarketData_init 0 ''Dell'' ''XPS 13'' ''USED_GOOD'')
          \<lparr>avg_sold_price := 200, sold_count := 3\<rparr>) ''USED_GOOD'' None)
     < buy_it_now_price (calculate_pricing_from_market_data
       ((MarketData_init 0 ''Dell'' ''XPS 13'' ''USED_GOOD'')
          \<lparr>avg_sold_price := 200, sold_count := 3\<rparr>) ''LIKE_NEW'' None)
   \<and> determine_base_price PRICING_CONFIG
       ((MarketData_init 0 ''Dell'' ''XPS 13'' ''USED_GOOD'')
          \<lparr>avg_sold_price := 200, sold_count := 3\<rparr>) None
     = Some (200, 0.9, [Lit ''Based on '', Num 3, Lit '' sold listings (avg $'', Fix2 200, Lit '')''])"
proof -
  have t: "determine_base_price PRICING_CONFIG
       ((MarketData_init 0 ''Dell'' ''XPS 13'' ''USED_GOOD'')
          \<lparr>avg_sold_price := 200, sold_count := 3\<rparr>) None
     = Some (200, 0.9, [Lit ''Based on '', Num 3, Lit '' sold listings (avg $'', Fix2 200, Lit '')''])"
    by (simp add: MarketData_init_def determine_base_price_def PRICING_CONFIG_def)
  have p: "(0::real) < 200" by simp
  show ?thesis using condition_penalty_monotone [OF t p] t by simp
qed

subsection \<open>Market data aggregator\<close>

lemma fetch_market_data_Inr:
  "\<exists>md. fetch_market_data research analyze now b m c = Inr md"
  by (simp add: fetch_market_data_def Let_def)

lemma fetch_market_data_identity:
  assumes "fetch_market_data research analyze now b m c = Inr md"
  shows "brand md = b" and "model md = m" and "MarketData.condition md = c"
  using assms
  by (auto simp: fetch_market_data_def Let_def MarketData_init_def
      split: sum.splits if_splits)

text \<open>
  Claim C5. \<open>fetch_market_data\<close> returns a record whatever its two sources do, also
  when one raises. When the research raises or finds no sold listing, and the analysis
  raises or reports no active listing, the record is the fresh one: no sold listing, no
  active listing and no source.
\<close>

theorem fetch_market_data_never_raises:
  "(\<exists>md. fetch_market_data research analyze now b m c = Inr md)
   \<and> ((research b m c = Inr [] \<or> (\<exists>e. research b m c = Inl e))
        \<and> ((\<exists>e. analyze b m c = Inl e)
             \<or> (\<exists>st. analyze b m c = Inr st \<and> active_stats.active_listing_count st \<le> 0))
      \<longrightarrow> (\<exists>md. fetch_market_data research analyze now b m c = Inr md
                \<and> sold_count md = 0 \<and> active_listing_count md = 0 \<and> sources md = []
                \<and> md = MarketData_init now b m c))"
proof (rule conjI)
  show "\<exists>md. fetch_market_data research analyze now b m c = Inr md"
    by (simp add: fetch_market_data_def Let_def)
next
  have fresh: "sold_count (MarketData_init now b m c) = 0"
    "active_listing_count (MarketData_init now b m c) = 0"
    "sources (MarketData_init now b m c) = []"
    by (simp_all add: MarketData_init_def)
  have "(research b m c = Inr [] \<or> (\<exists>e. research b m c = Inl e))
        \<and> ((\<exists>e. analyze b m c = Inl e)
             \<or> (\<exists>st. analyze b m c = Inr st \<and> active_stats.active_listing_count st \<le> 0))
      \<longrightarrow> fetch_market_data research analyze now b m c = Inr (MarketData_init now b m c)"
    by (auto simp: fetch_market_data_def Let_def)
  with fresh show "(research b m c = Inr [] \<or> (\<exists>e. research b m c = Inl e))
        \<and> ((\<exists>e. analyze b m c = Inl e)
             \<or> (\<exists>st. analyze b m c = Inr st \<and> active_stats.active_listing_count st \<le> 0))
      \<longrightarrow> (\<exists>md. fetch_market_data research analyze now b m c = Inr md
                \<and> sold_count md = 0 \<and> active_listing_count md = 0 \<and> sources md = []
                \<and> md = MarketData_init now b m c)"
    by simp
qed

text \<open>
  A research that times out with an analysis that finds nothing, and a research that
  finds nothing with an analysis that fails: both give the fresh record.
\<close>

theorem fetch_market_data_never_raises_witness:
  "fetch_market_data research_timeout no_active_listings 0 ''Apple'' ''iPad Air'' ''LIKE_NEW''
     = Inr (MarketData_init 0 ''Apple'' ''iPad Air'' ''LIKE_NEW'')
   \<and> fetch_market_data no_sold_comps analysis_fails 0 ''Apple'' ''iPad Air'' ''LIKE_NEW''
     = Inr (MarketData_init 0 ''Apple'' ''iPad Air'' ''LIKE_NEW'')"
  using
    fetch_market_data_never_raises [of research_timeout no_active_listings 0
      "''Apple''" "''iPad Air''" "''LIKE_NEW''"]
    fetch_market_data_never_raises [of no_sold_comps analysis_fails 0
      "''Apple''" "''iPad Air''" "''LIKE_NEW''"]
  by (auto simp: no_active_stats_def research_timeout_def no_active_listings_def
      no_sold_comps_def analysis_fails_def)

text \<open>
  The paths of the loop in \<open>analyze_active_competition\<close>: an item without a usable
  price is skipped, and if no price is left the count is the reported total; an item
  that is not a dictionary ends the analysis in the outer \<^verbatim>\<open>except\<close>, with the count 0
  whatever was read before.
\<close>

lemma analyze_unpriced_items:
  "analyze_active_competition search_without_prices ''Apple'' ''iPad Air'' ''USED_GOOD''
     = Inr (no_active_stats 7)"
  by (simp add: analyze_active_competition_def search_without_prices_def bind_err_def Let_def)

lemma analyze_malformed_item:
  "analyze_active_competition search_with_malformed_item ''Apple'' ''iPad Air'' ''USED_GOOD''
     = Inr (no_active_stats 0)"
  by (simp add: analyze_active_competition_def search_with_malformed_item_def bind_err_def
      Let_def)

text \<open>
  Claim C2. A recommendation with a buy-it-now price of 0.0 should have the confidence
  0.0. The code breaks this: when the search returns items of which none has a usable
  price, \<open>analyze_active_competition\<close> reports the total count with an average of 0.0,
  \<open>fetch_market_data\<close> takes it as active data, and the calculator prices the item at
  0.0 with the confidence 0.6, although a retail price of 599 is at hand.
\<close>

theorem zero_price_with_confidence:
  "fetch_market_data no_sold_comps (analyze_active_competition search_without_prices)
       0 ''Apple'' ''iPad Air'' ''USED_GOOD''
     = Inr priceless_market_data
   \<and> buy_it_now_price
       (calculate_pricing_from_market_data priceless_market_data ''USED_GOOD'' (Some 599)) = 0
   \<and> PricingRecommendation.confidence
       (calculate_pricing_from_market_data priceless_market_data ''USED_GOOD'' (Some 599))
     = 0.6"
  by (simp add: fetch_market_data_def analyze_active_competition_def Let_def
      MarketData_init_def no_active_stats_def calculate_pricing_from_market_data_def
      determine_base_price_def PRICING_CONFIG_def BEST_OFFER_CONFIG_def bind_err_def
      no_sold_comps_def search_without_prices_def priceless_market_data_def)

subsection \<open>Sold statistics\<close>

text \<open>
  A z-score test is a comparison of squares, which rational arithmetic decides; the
  statistics of the code are those of the specification wherever the code does not
  raise; and \<open>remove_outliers\<close> in the specification's terms.
\<close>

lemma abs_div_sqrt_le_iff:
  fixes x v t :: real
  assumes "0 < v" and "0 \<le> t"
  shows "\<bar>x / sqrt v\<bar> \<le> t \<longleftrightarrow> x\<^sup>2 \<le> t\<^sup>2 * v"
proof -
  have s: "0 < sqrt v" using assms(1) by simp
  have nn: "0 \<le> t * sqrt v" using assms(2) s by simp
  have "\<bar>x / sqrt v\<bar> = \<bar>x\<bar> / sqrt v" using s by simp
  also have "\<dots> \<le> t \<longleftrightarrow> \<bar>x\<bar> \<le> t * sqrt v" using s by (simp add: pos_divide_le_eq)
  also have "\<dots> \<longleftrightarrow> \<bar>x\<bar> \<le> \<bar>t * sqrt v\<bar>" using nn by simp
  also have "\<dots> \<longleftrightarrow> x\<^sup>2 \<le> (t * sqrt v)\<^sup>2" by (rule abs_le_square_iff)
  also have "\<dots> \<longleftrightarrow> x\<^sup>2 \<le> t\<^sup>2 * v"
    using assms(1) by (simp add: power_mult_distrib)
  finally show ?thesis .
qed

lemma z_score_le_iff:
  assumes "0 < sample_variance xs" and "0 \<le> t"
  shows "z_score xs x \<le> t \<longleftrightarrow> (x - sample_mean xs)\<^sup>2 \<le> t\<^sup>2 * sample_variance xs"
  unfolding z_score_def by (rule abs_div_sqrt_le_iff [OF assms])

lemma mean_eq: "xs \<noteq> [] \<Longrightarrow> mean xs = Inr (sample_mean xs)"
  by (simp add: mean_def sample_mean_def)

lemma stdev_eq: "2 \<le> length xs \<Longrightarrow> stdev xs = Inr (sqrt (sample_variance xs))"
  by (simp add: stdev_def sample_variance_def sample_mean_def Let_def)

lemma median_eq: "xs \<noteq> [] \<Longrightarrow> median xs = Inr (middle xs)"
proof -
  assume "xs \<noteq> []"
  then have "sort xs \<noteq> []" by (metis length_0_conv length_sort)
  then show ?thesis
    by (auto simp: median_def middle_def Let_def odd_iff_mod_2_eq_one)
qed

lemma remove_outliers_spec:
  "remove_outliers prices None =
     (if length prices < 3 \<or> sqrt (sample_variance prices) = 0 then prices
      else if filter (\<lambda>p. z_score prices p \<le> 2.5) prices = [] then [middle prices]
      else filter (\<lambda>p. z_score prices p \<le> 2.5) prices)"
proof (cases "length prices < 3")
  case True
  then show ?thesis by (simp add: remove_outliers_def)
next
  case False
  then have ne: "prices \<noteq> []" and two: "2 \<le> length prices" by auto
  show ?thesis
    using False
    by (simp add: remove_outliers_def mean_eq [OF ne] stdev_eq [OF two] median_eq [OF ne]
        PRICING_CONFIG_def Let_def z_score_def)
qed

lemma ex_mean: "sample_mean [100, 102, 98, 101, 5000] = 5401 / 5"
  by (simp add: sample_mean_def)

lemma ex_variance: "sample_variance [100, 102, 98, 101, 5000] = 24007561 / 5"
  by (simp add: sample_variance_def ex_mean power2_eq_square)

lemma ex_keeps_all:
  "filter (\<lambda>p. z_score [100, 102, 98, 101, 5000] p \<le> 2.5) [100, 102, 98, 101, 5000]
     = [100, 102, 98, 101, 5000]"
proof -
  have "z_score [100, 102, 98, 101, 5000] p \<le> 2.5"
    if "p \<in> set [100, 102, 98, 101, 5000]" for p
  proof -
    have "(p - sample_mean [100, 102, 98, 101, 5000])\<^sup>2
            \<le> (2.5)\<^sup>2 * sample_variance [100, 102, 98, 101, 5000]"
      using that by (auto simp: ex_mean ex_variance power2_eq_square)
    moreover have "0 < sample_variance [100, 102, 98, 101, 5000]"
      by (simp add: ex_variance)
    ultimately show ?thesis
      using z_score_le_iff [of "[100, 102, 98, 101, 5000]" "2.5" p] by simp
  qed
  then show ?thesis by (simp only: filter_id_conv) blast
qed

lemma ex_middle: "middle [100, 102, 98, 101, 5000] = 101"
  by (simp add: middle_def)

lemma remove_outliers_ex:
  "remove_outliers [100, 102, 98, 101, 5000] None = [100, 102, 98, 101, 5000]"
  by (subst remove_outliers_spec, simp only: ex_keeps_all, simp)


lemma py_min_eq: "xs \<noteq> [] \<Longrightarrow> py_min xs = Inr (Min (set xs))"
proof (cases xs)
  case Nil
  then show "xs \<noteq> [] \<Longrightarrow> ?thesis" by simp
next
  case (Cons a list)
  then show ?thesis using Min.set_eq_fold [of a list] by (simp add: py_min_def)
qed

lemma py_max_eq: "xs \<noteq> [] \<Longrightarrow> py_max xs = Inr (Max (set xs))"
proof (cases xs)
  case Nil
  then show "xs \<noteq> [] \<Longrightarrow> ?thesis" by simp
next
  case (Cons a list)
  then show ?thesis using Max.set_eq_fold [of a list] by (simp add: py_max_def)
qed

lemma remove_outliers_nonempty:
  "prices \<noteq> [] \<Longrightarrow> remove_outliers prices None \<noteq> []"
  by (simp add: remove_outliers_spec)

lemma calculate_sold_stats_eq:
  assumes "ls \<noteq> []"
  shows "calculate_sold_stats ls =
           Inr \<lparr>sold_stats.avg_sold_price = sample_mean (remove_outliers (map price ls) None),
                sold_stats.median_sold_price = middle (remove_outliers (map price ls) None),
                sold_stats.price_range_low = Min (set (remove_outliers (map price ls) None)),
                sold_stats.price_range_high = Max (set (remove_outliers (map price ls) None)),
                sold_stats.sold_count = int (length ls)\<rparr>"
proof -
  have "remove_outliers (map price ls) None \<noteq> []"
    using assms by (simp add: remove_outliers_nonempty)
  then show ?thesis
    using assms
    by (simp add: calculate_sold_stats_def Let_def mean_eq median_eq py_min_eq py_max_eq)
qed

text \<open>
  Claim C3, the part that fails. For the sold prices 100, 102, 98, 101 and 5000 the mean
  is 1080.2 and the sample variance 4801512.2, so the z-score of 5000 is about 1.79,
  which is within the threshold 2.5: no price is removed. The statistics are those of
  all five prices (average 1080.2, median 101), not those of the first four (average
  100.25, median 100.5).
\<close>

theorem outlier_example_keeps_5000:
  "remove_outliers [100, 102, 98, 101, 5000] None = [100, 102, 98, 101, 5000]
   \<and> calculate_sold_stats
       [example_listing 100, example_listing 102, example_listing 98,
        example_listing 101, example_listing 5000]
     = Inr \<lparr>sold_stats.avg_sold_price = 1080.2,
            sold_stats.median_sold_price = 101,
            sold_stats.price_range_low = 98,
            sold_stats.price_range_high = 5000,
            sold_stats.sold_count = 5\<rparr>
   \<and> sample_mean [100, 102, 98, 101] = 100.25
   \<and> middle [100, 102, 98, 101] = 100.5"
  by (simp add: calculate_sold_stats_eq example_listing_def remove_outliers_ex
      sample_mean_def middle_def)

text \<open>
  Claim C3, amended. For a non-empty list of sold listings, prices are removed only
  when there are at least 3 of them and their sample standard deviation is not zero;
  then every price whose z-score exceeds 2.5 is dropped, and if none is left the median
  of the original prices is kept alone. The working set is never empty. The average,
  the median, the minimum and the maximum are those of the working set, and the count
  is the number of listings before the removal. For the prices 100, 102, 98, 101 and
  5000 nothing is removed: the average is 1080.2, the median 101 and the count 5.
\<close>

theorem sold_stats_outlier_removal:
  assumes "ls \<noteq> []"
  shows "remove_outliers (map price ls) None =
           (if length (map price ls) < 3 \<or> sqrt (sample_variance (map price ls)) = 0
            then map price ls
            else if filter (\<lambda>p. z_score (map price ls) p \<le> 2.5) (map price ls) = []
            then [middle (map price ls)]
            else filter (\<lambda>p. z_score (map price ls) p \<le> 2.5) (map price ls))
       \<and> remove_outliers (map price ls) None \<noteq> []
       \<and> calculate_sold_stats ls =
           Inr \<lparr>sold_stats.avg_sold_price = sample_mean (remove_outliers (map price ls) None),
                sold_stats.median_sold_price = middle (remove_outliers (map price ls) None),
                sold_stats.price_range_low = Min (set (remove_outliers (map price ls) None)),
                sold_stats.price_range_high = Max (set (remove_outliers (map price ls) None)),
                sold_stats.sold_count = int (length ls)\<rparr>
       \<and> (map price ls = [100, 102, 98, 101, 5000] \<longrightarrow>
            remove_outliers (map price ls) None = [100, 102, 98, 101, 5000]
            \<and> calculate_sold_stats ls =
                Inr \<lparr>sold_stats.avg_sold_price = 1080.2,
                     sold_stats.median_sold_price = 101,
                     sold_stats.price_range_low = 98,
                     sold_stats.price_range_high = 5000,
                     sold_stats.sold_count = 5\<rparr>)"
proof (intro conjI impI)
  show "remove_outliers (map price ls) None =
           (if length (map price ls) < 3 \<or> sqrt (sample_variance (map price ls)) = 0
            then map price ls
            else if filter (\<lambda>p. z_score (map price ls) p \<le> 2.5) (map price ls) = []
            then [middle (map price ls)]
            else filter (\<lambda>p. z_score (map price ls) p \<le> 2.5) (map price ls))"
    by (rule remove_outliers_spec)
  show "remove_outliers (map price ls) None \<noteq> []"
    using assms by (simp add: remove_outliers_nonempty)
  show "calculate_sold_stats ls =
           Inr \<lparr>sold_stats.avg_sold_price = sample_mean (remove_outliers (map price ls) None),
                sold_stats.median_sold_price = middle (remove_outliers (map price ls) None),
                sold_stats.price_range_low = Min (set (remove_outliers (map price ls) None)),
                sold_stats.price_range_high = Max (set (remove_outliers (map price ls) None)),
                sold_stats.sold_count = int (length ls)\<rparr>"
    by (rule calculate_sold_stats_eq [OF assms])
next
  assume ex: "map price ls = [100, 102, 98, 101, 5000]"
  show "remove_outliers (map price ls) None = [100, 102, 98, 101, 5000]"
    by (simp only: ex remove_outliers_ex)
  have "length (map price ls) = 5" by (simp only: ex) simp
  then have "length ls = 5" by simp
  then show "calculate_sold_stats ls =
                Inr \<lparr>sold_stats.avg_sold_price = 1080.2,
                     sold_stats.median_sold_price = 101,
                     sold_stats.price_range_low = 98,
                     sold_stats.price_range_high = 5000,
                     sold_stats.sold_count = 5\<rparr>"
    by (simp add: calculate_sold_stats_eq [OF assms] ex remove_outliers_ex sample_mean_def
        middle_def)
qed

text \<open>The five listings of the example.\<close>

theorem sold_stats_outlier_removal_witness:
  "remove_outliers
     (map price [example_listing 100, example_listing 102, example_listing 98,
                 example_listing 101, example_listing 5000]) None
     = [100, 102, 98, 101, 5000]
   \<and> calculate_sold_stats
       [example_listing 100, example_listing 102, example_listing 98,
        example_listing 101, example_listing 5000]
     = Inr \<lparr>sold_stats.avg_sold_price = 1080.2,
            sold_stats.median_sold_price = 101,
            sold_stats.price_range_low = 98,
            sold_stats.price_range_high = 5000,
            sold_stats.sold_count = 5\<rparr>"
proof -
  have ne: "[example_listing 100, example_listing 102, example_listing 98,
             example_listing 101, example_listing 5000] \<noteq> []"
    by simp
  have ex: "map price [example_listing 100, example_listing 102, example_listing 98,
                       example_listing 101, example_listing 5000]
              = [100, 102, 98, 101, 5000]"
    by (simp add: example_listing_def)
  show ?thesis
    by (rule sold_stats_outlier_removal
          [OF ne, THEN conjunct2, THEN conjunct2, THEN conjunct2, THEN mp, OF ex])
qed

subsection \<open>Cache store\<close>

text \<open>The text of a timestamp reads back as the timestamp.\<close>

declare dec_nat.simps [simp del]

lemma digit_val_digit_char: "n < 10 \<Longrightarrow> digit_val (digit_char n) = Some n"
proof -
  assume "n < 10"
  then have "n \<in> {0, 1, 2, 3, 4, 5, 6, 7, 8, 9}" by auto
  then show ?thesis by (auto simp: digit_val_def digit_char_def)
qed

lemma digit_char_not_minus: "n < 10 \<Longrightarrow> digit_char n \<noteq> CHR ''-''"
proof -
  assume "n < 10"
  then have "n \<in> {0, 1, 2, 3, 4, 5, 6, 7, 8, 9}" by auto
  then show ?thesis by (auto simp: digit_char_def)
qed

lemma undec_append:
  "undec acc (xs @ ys) = (case undec acc xs of None \<Rightarrow> None | Some a \<Rightarrow> undec a ys)"
  by (induction xs arbitrary: acc) (auto split: option.splits)

lemma dec_nat_nonempty: "dec_nat n \<noteq> []"
  by (subst dec_nat.simps) simp

lemma undec_dec_nat: "undec acc (dec_nat n) = Some (acc * 10 ^ length (dec_nat n) + n)"
proof (induction n arbitrary: acc rule: dec_nat.induct)
  case (1 n)
  show ?case
  proof (cases "n < 10")
    case True
    then show ?thesis by (subst (1 2) dec_nat.simps) (simp add: digit_val_digit_char)
  next
    case False
    have m: "n mod 10 < 10" by simp
    show ?thesis using False 1[OF False]
      by (subst (1 2) dec_nat.simps)
         (simp add: undec_append digit_val_digit_char[OF m] algebra_simps)
  qed
qed

lemma hd_dec_nat: "hd (dec_nat n) \<noteq> CHR ''-''"
proof (induction n rule: dec_nat.induct)
  case (1 n)
  show ?case
  proof (cases "n < 10")
    case True
    then show ?thesis by (subst dec_nat.simps) (simp add: digit_char_not_minus)
  next
    case False
    then show ?thesis using 1[OF False] dec_nat_nonempty[of "n div 10"]
      by (subst dec_nat.simps) simp
  qed
qed

lemma fromisoformat_isoformat: "fromisoformat (isoformat d) = Inr d"
proof (cases "d < 0")
  case True
  obtain c cs where cs: "dec_nat (nat (- d)) = c # cs"
    using dec_nat_nonempty [of "nat (- d)"] by (cases "dec_nat (nat (- d))") auto
  have "undec 0 (dec_nat (nat (- d))) = Some (nat (- d))"
    by (simp add: undec_dec_nat)
  then show ?thesis using True cs
    by (simp add: fromisoformat_def isoformat_def)
next
  case False
  obtain c cs where cs: "dec_nat (nat d) = c # cs"
    using dec_nat_nonempty [of "nat d"] by (cases "dec_nat (nat d)") auto
  have c: "c \<noteq> CHR ''-''" using hd_dec_nat [of "nat d"] cs by simp
  have "undec 0 (dec_nat (nat d)) = Some (nat d)"
    by (simp add: undec_dec_nat)
  then show ?thesis using False cs c
    by (simp add: fromisoformat_def isoformat_def)
qed

lemma fromisoformat_yesterday: "fromisoformat ''yesterday'' = Inl ValueError"
  by (simp add: fromisoformat_def digit_val_def)

text \<open>What the serializer writes, the deserializer reads back.\<close>

lemma listing_of_json_to_json: "listing_of_json (listing_to_json l) = Inr l"
  by (cases l)
     (simp add: listing_of_json_def listing_to_json_def bind_err_def subscript_def
        fromisoformat_isoformat)

lemma listings_of_json_map: "listings_of_json (map listing_to_json ls) = Inr ls"
  by (induction ls) (simp_all add: bind_err_def listing_of_json_to_json)

lemma deserialize_serialize:
  "deserialize_market_data now (serialize_market_data md)
     = Inr (md\<lparr>data_age_hours := 0, created_at := now\<rparr>)"
  by (cases md)
     (simp add: deserialize_market_data_def serialize_market_data_def json_dumps_def
        bind_err_def subscript_def get_or_def listings_of_json_map Let_def)

text \<open>
  A record that \<open>cache_market_data\<close> stored is found under its own brand, model and
  condition until it expires, with the age counted from the time of the store: every
  row the program writes has timestamps that \<open>fromisoformat\<close> reads.
\<close>

lemma cache_hit_after_store:
  assumes "t1 \<le> now + 86400000000"
  shows "get_cached_market_data t1 t2 t3 (cache_market_data now db md)
           (brand md) (model md) (MarketData.condition md)
         = Inr (Some (md\<lparr>data_age_hours := total_seconds (t3 - now) / 3600,
                          created_at := t2\<rparr>),
                cache_market_data now db md)"
  using assms
  by (simp add: get_cached_market_data_def cache_market_data_def Let_def bind_err_def
      fromisoformat_isoformat deserialize_serialize timedelta_hours_def PRICING_CONFIG_def)

lemma example_key:
  "generate_cache_key ''Apple'' ''iPad Air'' ''LIKE_NEW'' = ''apple_ipad air_like_new''"
  by (simp add: generate_cache_key_def lower_def lower_char_def split_def strip_def
      isspace_def Let_def)

lemma example_cached:
  "cache_market_data 0 Map.empty example_market_data =
     [''apple_ipad air_like_new'' \<mapsto>
        \<lparr>market_cache_row.brand = ''Apple'', market_cache_row.model = ''iPad Air'',
         market_cache_row.condition = ''LIKE_NEW'',
         data_json = serialize_market_data example_market_data,
         market_cache_row.created_at = isoformat 0,
         market_cache_row.expires_at = isoformat 86400000000\<rparr>]"
  by (simp add: cache_market_data_def Let_def example_market_data_def MarketData_init_def
      example_key timedelta_hours_def PRICING_CONFIG_def)

text \<open>
  What \<open>get_cached_market_data\<close> does with the row under the normalized key, when
  there is none or when its \<^verbatim>\<open>expires_at\<close> is the text of a timestamp. With no row
  it returns nothing and leaves the table as it is. With a row that has expired (the
  clock is past \<^verbatim>\<open>expires_at\<close>) it deletes the row and returns nothing. With a
  row that has not expired but cannot be deserialized (the stored text, or the text of
  \<^verbatim>\<open>created_at\<close>), it deletes the row and returns nothing. Otherwise it returns the
  deserialized record with \<^verbatim>\<open>data_age_hours\<close> set to the hours between
  \<^verbatim>\<open>created_at\<close> and the clock, and leaves the table as it is.
\<close>

lemma cache_lookup_cases:
  "(db (generate_cache_key b m c) = None \<longrightarrow>
      get_cached_market_data t1 t2 t3 db b m c = Inr (None, db))
   \<and> (db (generate_cache_key b m c) = Some row
        \<and> fromisoformat (market_cache_row.expires_at row) = Inr e \<and> t1 > e \<longrightarrow>
      get_cached_market_data t1 t2 t3 db b m c
        = Inr (None, db(generate_cache_key b m c := None)))
   \<and> (db (generate_cache_key b m c) = Some row
        \<and> fromisoformat (market_cache_row.expires_at row) = Inr e \<and> \<not> t1 > e
        \<and> deserialize_market_data t2 (data_json row) = Inl err \<longrightarrow>
      get_cached_market_data t1 t2 t3 db b m c
        = Inr (None, db(generate_cache_key b m c := None)))
   \<and> (db (generate_cache_key b m c) = Some row
        \<and> fromisoformat (market_cache_row.expires_at row) = Inr e \<and> \<not> t1 > e
        \<and> deserialize_market_data t2 (data_json row) = Inr md
        \<and> fromisoformat (market_cache_row.created_at row) = Inl err \<longrightarrow>
      get_cached_market_data t1 t2 t3 db b m c
        = Inr (None, db(generate_cache_key b m c := None)))
   \<and> (db (generate_cache_key b m c) = Some row
        \<and> fromisoformat (market_cache_row.expires_at row) = Inr e \<and> \<not> t1 > e
        \<and> deserialize_market_data t2 (data_json row) = Inr md
        \<and> fromisoformat (market_cache_row.created_at row) = Inr created \<longrightarrow>
      get_cached_market_data t1 t2 t3 db b m c
        = Inr (Some (md\<lparr>data_age_hours := total_seconds (t3 - created) / 3600\<rparr>), db))"
proof (cases "db (generate_cache_key b m c)")
  case None
  then show ?thesis
    by (simp add: get_cached_market_data_def Let_def)
next
  case (Some stored)
  show ?thesis
  proof (cases "fromisoformat (market_cache_row.expires_at stored)")
    case (Inl raised)
    with Some show ?thesis by auto
  next
    case (Inr expiry)
    show ?thesis
    proof (cases "t1 > expiry")
      case True
      with Some Inr show ?thesis
        by (auto simp: get_cached_market_data_def delete_cache_entry_def bind_err_def Let_def)
    next
      case False
      with Some Inr show ?thesis
        by (auto simp: get_cached_market_data_def delete_cache_entry_def bind_err_def Let_def)
    qed
  qed
qed

text \<open>
  An empty table; a row stored at time 0 and read after its 24 hours; a row whose text
  is not JSON; a row whose \<^verbatim>\<open>created_at\<close> is not a timestamp; and a row stored at time
  0 and read one hour later.
\<close>

lemma cache_lookup_cases_examples:
  "get_cached_market_data 10 11 12 Map.empty ''Apple'' ''iPad Air'' ''LIKE_NEW''
     = Inr (None, Map.empty)
   \<and> get_cached_market_data 90000000000 90000000001 90000000002
       (cache_market_data 0 Map.empty example_market_data) ''Apple'' ''iPad Air'' ''LIKE_NEW''
     = Inr (None, Map.empty)
   \<and> get_cached_market_data 3600000000 3600000001 3600000002
       [''apple_ipad air_like_new'' \<mapsto> corrupt_row] ''Apple'' ''iPad Air'' ''LIKE_NEW''
     = Inr (None, Map.empty)
   \<and> get_cached_market_data 3600000000 3600000001 3600000002
       [''apple_ipad air_like_new'' \<mapsto> misdated_row] ''Apple'' ''iPad Air'' ''LIKE_NEW''
     = Inr (None, Map.empty)
   \<and> get_cached_market_data 3600000000 3600000001 3600000000
       (cache_market_data 0 Map.empty example_market_data) ''Apple'' ''iPad Air'' ''LIKE_NEW''
     = Inr (Some (example_market_data\<lparr>data_age_hours := 1, created_at := 3600000001\<rparr>),
            cache_market_data 0 Map.empty example_market_data)"
proof (intro conjI)
  show "get_cached_market_data 3600000000 3600000001 3600000002
       [''apple_ipad air_like_new'' \<mapsto> misdated_row] ''Apple'' ''iPad Air'' ''LIKE_NEW''
     = Inr (None, Map.empty)"
    using cache_lookup_cases [where db = "[''apple_ipad air_like_new'' \<mapsto> misdated_row]"
        and b = "''Apple''" and m = "''iPad Air''" and c = "''LIKE_NEW''"
        and ?t1.0 = 3600000000 and ?t2.0 = 3600000001 and ?t3.0 = 3600000002
        and e = 86400000000 and row = misdated_row and err = ValueError
        and md = "example_market_data\<lparr>data_age_hours := 0, created_at := 3600000001\<rparr>"]
    by (simp add: example_key misdated_row_def fromisoformat_isoformat deserialize_serialize
        fromisoformat_yesterday)
  show "get_cached_market_data 10 11 12 Map.empty ''Apple'' ''iPad Air'' ''LIKE_NEW''
     = Inr (None, Map.empty)"
    using cache_lookup_cases [where db = Map.empty and b = "''Apple''" and m = "''iPad Air''"
        and c = "''LIKE_NEW''" and ?t1.0 = 10 and ?t2.0 = 11 and ?t3.0 = 12]
    by simp
  show "get_cached_market_data 90000000000 90000000001 90000000002
       (cache_market_data 0 Map.empty example_market_data) ''Apple'' ''iPad Air'' ''LIKE_NEW''
     = Inr (None, Map.empty)"
    using cache_lookup_cases [where db = "cache_market_data 0 Map.empty example_market_data"
        and b = "''Apple''" and m = "''iPad Air''" and c = "''LIKE_NEW''"
        and ?t1.0 = 90000000000 and ?t2.0 = 90000000001 and ?t3.0 = 90000000002
        and e = 86400000000
        and row = "\<lparr>market_cache_row.brand = ''Apple'', market_cache_row.model = ''iPad Air'',
         market_cache_row.condition = ''LIKE_NEW'',
         data_json = serialize_market_data example_market_data,
         market_cache_row.created_at = isoformat 0,
         market_cache_row.expires_at = isoformat 86400000000\<rparr>"]
    by (simp add: example_key example_cached fromisoformat_isoformat)
  show "get_cached_market_data 3600000000 3600000001 3600000002
       [''apple_ipad air_like_new'' \<mapsto> corrupt_row] ''Apple'' ''iPad Air'' ''LIKE_NEW''
     = Inr (None, Map.empty)"
    using cache_lookup_cases [where db = "[''apple_ipad air_like_new'' \<mapsto> corrupt_row]"
        and b = "''Apple''" and m = "''iPad Air''" and c = "''LIKE_NEW''"
        and ?t1.0 = 3600000000 and ?t2.0 = 3600000001 and ?t3.0 = 3600000002
        and e = 86400000000 and row = corrupt_row and err = JSONDecodeError]
    by (simp add: example_key corrupt_row_def fromisoformat_isoformat
        deserialize_market_data_def bind_err_def)
  show "get_cached_market_data 3600000000 3600000001 3600000000
       (cache_market_data 0 Map.empty example_market_data) ''Apple'' ''iPad Air'' ''LIKE_NEW''
     = Inr (Some (example_market_data\<lparr>data_age_hours := 1, created_at := 3600000001\<rparr>),
            cache_market_data 0 Map.empty example_market_data)"
    using cache_lookup_cases [where db = "cache_market_data 0 Map.empty example_market_data"
        and b = "''Apple''" and m = "''iPad Air''" and c = "''LIKE_NEW''"
        and ?t1.0 = 3600000000 and ?t2.0 = 3600000001 and ?t3.0 = 3600000000
        and e = 86400000000 and created = 0
        and md = "example_market_data\<lparr>data_age_hours := 0, created_at := 3600000001\<rparr>"
        and row = "\<lparr>market_cache_row.brand = ''Apple'', market_cache_row.model = ''iPad Air'',
         market_cache_row.condition = ''LIKE_NEW'',
         data_json = serialize_market_data example_market_data,
         market_cache_row.created_at = isoformat 0,
         market_cache_row.expires_at = isoformat 86400000000\<rparr>"]
    by (simp add: example_key example_cached fromisoformat_isoformat deserialize_serialize
        total_seconds_def)
qed

lemma fromisoformat_tomorrow: "fromisoformat ''tomorrow'' = Inl ValueError"
  by (simp add: fromisoformat_def digit_val_def)

text \<open>
  Claim C7. A cache entry that cannot be read should be deleted and answered as a miss,
  with no error reaching the caller. The code breaks this for a row whose
  \<^verbatim>\<open>expires_at\<close> is not the text of a timestamp: \<^verbatim>\<open>datetime.fromisoformat(expires_at)\<close>
  at line 101 stands before the \<^verbatim>\<open>try\<close>, so its \<^verbatim>\<open>ValueError\<close> leaves the function
  and the row stays in the table, also when the stored text is not JSON. The same call
  on \<^verbatim>\<open>created_at\<close>, at line 112, stands inside the \<^verbatim>\<open>try\<close>.
\<close>

theorem corrupt_expiry_raises:
  "get_cached_market_data 3600000000 3600000001 3600000002
       [''apple_ipad air_like_new'' \<mapsto> undated_row] ''Apple'' ''iPad Air'' ''LIKE_NEW''
     = Inl ValueError
   \<and> get_cached_market_data 3600000000 3600000001 3600000002
       [''apple_ipad air_like_new'' \<mapsto> garbled_undated_row]
       ''Apple'' ''iPad Air'' ''LIKE_NEW''
     = Inl ValueError"
  by (simp add: get_cached_market_data_def Let_def example_key bind_err_def
      undated_row_def garbled_undated_row_def fromisoformat_tomorrow)

text \<open>
  Claim C10. Deserializing a serialized record gives the record back in its brand,
  model, condition, sold-side fields (with the sold listings), active-side fields,
  confidence and sources; \<^verbatim>\<open>data_age_hours\<close> and \<^verbatim>\<open>created_at\<close> are not stored and
  get their defaults, 0.0 and the clock reading at construction.
\<close>

theorem market_data_roundtrip:
  "deserialize_market_data now (serialize_market_data md)
     = Inr (md\<lparr>data_age_hours := 0, created_at := now\<rparr>)"
proof -
  have listings: "listings_of_json (map listing_to_json (sold_listings md))
      = Inr (sold_listings md)"
    by (rule listings_of_json_map)
  show ?thesis
    using listings
    by (cases md)
       (simp add: deserialize_market_data_def serialize_market_data_def json_dumps_def
          bind_err_def subscript_def get_or_def Let_def)
qed

text \<open>The round trip of the example record.\<close>

theorem market_data_roundtrip_witness:
  "deserialize_market_data 3600000001 (serialize_market_data example_market_data)
     = Inr (example_market_data\<lparr>data_age_hours := 0, created_at := 3600000001\<rparr>)"
  by (rule market_data_roundtrip)

subsection \<open>Entry point\<close>

lemma normalize_LIKE_NEW: "normalize_condition ''LIKE_NEW'' = ''LIKE_NEW''"
  by (simp add: normalize_condition_def lower_def lower_char_def upper_def upper_char_def
      dict_get_def CONDITION_MAPPINGS_def)

text \<open>
  Claim C8, the part that fails. On a cache miss where the research finds no sold
  listing and the analysis no active listing, the fetched record is not stored: the
  table is as empty after the call as before.
\<close>

theorem empty_fetch_not_cached:
  "get_pricing_recommendation no_upc no_sold_comps no_active_listings example_clock
       Map.empty ''Apple'' ''iPad Air'' ''LIKE_NEW'' (Some 599) None
     = Inr (calculate_pricing_from_market_data
              (MarketData_init 13 ''Apple'' ''iPad Air'' ''LIKE_NEW'') ''LIKE_NEW'' (Some 599),
            Map.empty)"
  by (simp add: get_pricing_recommendation_def resolve_upc_def get_cached_market_data_def
      Let_def bind_err_def fetch_market_data_def no_active_stats_def normalize_LIKE_NEW
      MarketData_init_def
      no_upc_def no_sold_comps_def no_active_listings_def example_clock_def)

text \<open>
  Claim C8, amended. On a cache miss the fetched record is stored exactly when it has
  a sold listing or an active listing (\<^verbatim>\<open>sold_count > 0 or active_listing_count > 0\<close>),
  and then under the key of the query, before the price is calculated from it; a
  fetched record without any data is not stored and the table stays as the lookup left
  it.
\<close>

theorem fetch_cached_when_data:
  assumes "resolve_upc lookup b m rp upc = (b', pn, rp')"
    and "get_cached_market_data (now_expiry clk) (now_init clk) (now_age clk) cache
           b' pn (normalize_condition c) = Inr (None, cache1)"
    and "fetch_market_data research analyze (now_fetch clk) b' pn (normalize_condition c)
           = Inr md"
  shows "get_pricing_recommendation lookup research analyze clk cache b m c rp upc
           = Inr (calculate_pricing_from_market_data md (normalize_condition c) rp',
                  if sold_count md > 0 \<or> active_listing_count md > 0
                  then cache_market_data (now_store clk) cache1 md else cache1)
       \<and> map_option data_json
           (cache_market_data (now_store clk) cache1 md
              (generate_cache_key b' pn (normalize_condition c)))
           = Some (serialize_market_data md)"
proof -
  have "get_pricing_recommendation lookup research analyze clk cache b m c rp upc
           = Inr (calculate_pricing_from_market_data md (normalize_condition c) rp',
                  if sold_count md > 0 \<or> active_listing_count md > 0
                  then cache_market_data (now_store clk) cache1 md else cache1)"
    using assms by (simp add: get_pricing_recommendation_def bind_err_def Let_def)
  moreover have "map_option data_json
           (cache_market_data (now_store clk) cache1 md
              (generate_cache_key b' pn (normalize_condition c)))
           = Some (serialize_market_data md)"
    using fetch_market_data_identity [OF assms(3)]
    by (simp add: cache_market_data_def Let_def)
  ultimately show ?thesis by simp
qed

text \<open>
  A miss on the empty table with four active listings found: the record is stored.
\<close>

theorem fetch_cached_when_data_witness:
  "get_pricing_recommendation no_upc no_sold_comps four_active_listings example_clock
       Map.empty ''Apple'' ''iPad Air'' ''LIKE_NEW'' (Some 599) None
     = Inr (calculate_pricing_from_market_data active_market_data ''LIKE_NEW'' (Some 599),
            cache_market_data 14 Map.empty active_market_data)
   \<and> map_option data_json
       (cache_market_data 14 Map.empty active_market_data
          (generate_cache_key ''Apple'' ''iPad Air'' ''LIKE_NEW''))
     = Some (serialize_market_data active_market_data)"
proof -
  have a1: "resolve_upc no_upc ''Apple'' ''iPad Air'' (Some 599) None
              = (''Apple'', ''iPad Air'', Some 599)"
    by (simp add: resolve_upc_def)
  have a2: "get_cached_market_data (now_expiry example_clock) (now_init example_clock)
              (now_age example_clock) Map.empty ''Apple'' ''iPad Air''
              (normalize_condition ''LIKE_NEW'') = Inr (None, Map.empty)"
    by (simp add: get_cached_market_data_def Let_def)
  have a3: "fetch_market_data no_sold_comps four_active_listings (now_fetch example_clock)
              ''Apple'' ''iPad Air'' (normalize_condition ''LIKE_NEW'')
              = Inr active_market_data"
    by (simp add: fetch_market_data_def Let_def no_sold_comps_def four_active_listings_def
        example_clock_def normalize_LIKE_NEW active_market_data_def MarketData_init_def)
  have pos: "active_listing_count active_market_data > 0"
    by (simp add: active_market_data_def MarketData_init_def)
  show ?thesis
    using fetch_cached_when_data [OF a1 a2 a3] pos
    by (simp add: normalize_LIKE_NEW example_clock_def)
qed

end
